theory Spec2Isabelle
  imports Main "HOL-Library.Word"
begin

unbundle bit_operations_syntax

section \<open>MetadataCrypt.cpp: metadata encryption of the userdata partition\<close>

text \<open>
  A shallow embedding of \<^verbatim>\<open>MetadataCrypt.cpp\<close>. Every function of the file that
  returns \<^verbatim>\<open>bool\<close> returns a sum here: \<open>Inr\<close> is \<^verbatim>\<open>true\<close> (with the value an
  out-parameter receives), \<open>Inl e\<close> is \<^verbatim>\<open>false\<close>, and \<open>e\<close> names the
  \<^verbatim>\<open>return false\<close> that was taken. Everything the file does to the outside (log lines,
  ioctls, properties, the mount, the detached thread) is appended to a trace, in program
  order; everything the outside answers is read from an environment record.
\<close>

subsection \<open>Constants of the file\<close>

definition DM_CRYPT_BUF_SIZE :: nat where
  "DM_CRYPT_BUF_SIZE = 4096"

definition TABLE_LOAD_RETRIES :: nat where
  "TABLE_LOAD_RETRIES = 10"

text \<open>\<^verbatim>\<open>DATA_PREP_TIMEOUT\<close> is compared with the \<^verbatim>\<open>int\<close> counter of the polling loop.\<close>

definition DATA_PREP_TIMEOUT :: "32 word" where
  "DATA_PREP_TIMEOUT = 1000"

definition DEFAULT_KEY_TARGET_TYPE :: string where
  "DEFAULT_KEY_TARGET_TYPE = ''default-key''"

definition kDmNameUserdata :: string where
  "kDmNameUserdata = ''userdata''"

text \<open>
  The layout of \<^verbatim>\<open>struct dm_ioctl\<close> and \<^verbatim>\<open>struct dm_target_spec\<close> comes from the
  kernel header \<^verbatim>\<open>linux/dm-ioctl.h\<close>, which the file includes: 312 and 40 bytes, a
  name field of 128 bytes and a target-type field of 16 bytes.
\<close>

definition sizeof_dm_ioctl :: nat where
  "sizeof_dm_ioctl = 312"

definition sizeof_dm_target_spec :: nat where
  "sizeof_dm_target_spec = 40"

definition DM_NAME_LEN :: nat where
  "DM_NAME_LEN = 128"

definition DM_MAX_TYPE_NAME :: nat where
  "DM_MAX_TYPE_NAME = 16"

subsection \<open>Data\<close>

text \<open>\<^verbatim>\<open>KeyBuffer\<close> is a vector of \<^verbatim>\<open>char\<close>: a byte string.\<close>

type_synonym KeyBuffer = "char list"

definition NUL :: char where
  "NUL = CHR 0x00"

text \<open>The entry of the fstab the file reads: \<^verbatim>\<open>key_dir\<close> may be a null pointer.\<close>

record fstab_rec =
  blk_device :: string
  mount_point :: string
  key_dir :: "string option"

text \<open>The fields of \<^verbatim>\<open>struct dm_ioctl\<close> that the file writes or reads.\<close>

record dm_ioctl =
  io_version :: "32 word \<times> 32 word \<times> 32 word"
  io_data_size :: "32 word"
  io_data_start :: "32 word"
  io_target_count :: "32 word"
  io_flags :: "32 word"
  io_dev :: "64 word"
  io_name :: string

record dm_target_spec =
  tgt_sector_start :: "64 word"
  tgt_length :: "64 word"
  tgt_status :: "32 word"
  tgt_next :: "32 word"
  tgt_target_type :: string

text \<open>
  The command buffer \<^verbatim>\<open>char buffer[DM_CRYPT_BUF_SIZE]\<close>. The file writes it through three
  views that never overlap: the header at offset 0 (\<open>buf_io\<close>), the target spec at
  \<^verbatim>\<open>data_start\<close> (\<open>buf_tgt\<close>) and single bytes from \<^verbatim>\<open>paramix\<close> on. \<open>buf_bytes\<close> is the
  whole array as bytes, where the two struct regions stay as \<^verbatim>\<open>memset\<close> left them and
  are read through \<open>buf_io\<close> and \<open>buf_tgt\<close> instead.
\<close>

record dm_buffer =
  buf_io :: dm_ioctl
  buf_tgt :: dm_target_spec
  buf_bytes :: "char list"

datatype dm_cmd = DM_DEV_CREATE | DM_DEV_STATUS | DM_TABLE_LOAD | DM_DEV_SUSPEND

datatype severity = DEBUG | INFO | ERROR

text \<open>
  What the file does to the outside. \<open>PLog\<close> is \<^verbatim>\<open>PLOG\<close>, which adds the text of
  \<^verbatim>\<open>errno\<close> to the message. An \<open>Ioctl\<close> carries the buffer passed and whether the
  call returned 0. \<open>CryptfsEnableInplace\<close> carries the devices, the sector count, the
  return code and \<^verbatim>\<open>size_already_done\<close> as the callee left it. \<open>ThreadDetach\<close> is
  \<^verbatim>\<open>std::thread(&async_kick_off).detach()\<close>. \<open>Usleep\<close> is \<^verbatim>\<open>usleep\<close>, in microseconds, and
  \<open>Sleep\<close> is \<^verbatim>\<open>sleep\<close>, in seconds.
\<close>

datatype event =
    Log severity string
  | PLog severity string
  | OpenDev string
  | Mkdir string
  | RetrieveKey bool string string
  | Ioctl dm_cmd dm_buffer bool
  | Usleep nat
  | Sleep nat
  | PropertySet string string
  | Setexeccon bool
  | FsMgrDoMount string string
  | CryptfsEnableInplace string string "64 word" int "64 word"
  | ThreadDetach

text \<open>The \<^verbatim>\<open>return false\<close> statements of the file, and the two places where C leaves
  the behaviour undefined.\<close>

datatype error =
    VolumeNotFound
  | KeyDirMissing
  | KeyDirCreateError
  | KeyMissing
  | DeviceOpenError
  | SizeQueryError
  | DeviceMapperOpenError
  | DriverError
  | StatusQueryError
  | ParamsTooLarge
  | TableLoadFailed
  | ActivationFailed
  | TransformFailed int
  | PartialTransform
  | AlreadyEncryptedOrUnexpectedState
  | WriteOutOfBounds nat
  | NullDereference

text \<open>
  The answers of the outside, one field per call the file makes.
  \<^item> \<open>fs_mgr_get_crypt_entry\<close>: the fstab entry, \<open>None\<close> for a null pointer;
  \<^item> \<open>pathExists\<close>, \<open>mkdir_ok\<close> (\<^verbatim>\<open>mkdir\<close> returned 0), \<open>retrieveKey\<close> (\<open>None\<close> when
    it returns false), \<open>StrToHex\<close> (\<open>None\<close> when the status is not \<^verbatim>\<open>OK\<close>);
  \<^item> \<open>open_ok\<close>: \<^verbatim>\<open>open\<close> of a path gave a descriptor; \<open>get_blkdev_size\<close>: the sector
    count it stores in the \<^verbatim>\<open>unsigned long\<close> of the caller, 64 bits wide as \<^verbatim>\<open>nr_sec\<close> is;
  \<^item> \<open>dev_create_ok\<close>, \<open>dev_status\<close> (the device number the kernel stores in the header,
    \<open>None\<close> when the ioctl fails), \<open>table_load_ok i\<close> (the load ioctl of iteration \<open>i\<close>
    returned 0), \<open>dev_suspend_ok\<close>: the answers of the device-mapper driver;
  \<^item> \<open>cryptfs_enable_inplace\<close>, for the mapped device, the backing device and the sector
    count: the return code and \<^verbatim>\<open>size_already_done\<close> (an \<^verbatim>\<open>off64_t\<close>, which the source
    casts to \<^verbatim>\<open>uint64_t\<close> before it compares: the same 64 bits);
  \<^item> \<open>setexeccon_ok b\<close> (\<open>b\<close> for the fsck context, \<open>\<not> b\<close> for the reset) and
    \<open>fs_mgr_do_mount\<close>, the return code of the mount;
  \<^item> \<open>post_fs_data_done i\<close>: the value of the property \<^verbatim>\<open>vold.post_fs_data_done\<close> that
    poll \<open>i\<close> of \<^verbatim>\<open>prep_data_fs\<close> reads (\<^verbatim>\<open>init\<close> sets the property while the thread
    polls), empty when the property is unset.
\<close>

record env =
  fs_mgr_get_crypt_entry :: "fstab_rec option"
  pathExists :: "string \<Rightarrow> bool"
  mkdir_ok :: "string \<Rightarrow> bool"
  retrieveKey :: "bool \<Rightarrow> string \<Rightarrow> string \<Rightarrow> KeyBuffer option"
  StrToHex :: "KeyBuffer \<Rightarrow> KeyBuffer option"
  open_ok :: "string \<Rightarrow> bool"
  get_blkdev_size :: "string \<Rightarrow> 64 word"
  dev_create_ok :: bool
  dev_status :: "64 word option"
  table_load_ok :: "nat \<Rightarrow> bool"
  dev_suspend_ok :: bool
  cryptfs_enable_inplace :: "string \<Rightarrow> string \<Rightarrow> 64 word \<Rightarrow> int \<times> 64 word"
  setexeccon_ok :: "bool \<Rightarrow> bool"
  fs_mgr_do_mount :: "string \<Rightarrow> string \<Rightarrow> int"
  post_fs_data_done :: "nat \<Rightarrow> string"

text \<open>
  The state the file changes: the names of the mappings the device-mapper driver holds,
  the system properties, and the trace.
\<close>

record state =
  mappings :: "string list"
  props :: "string \<Rightarrow> string option"
  trace :: "event list"

definition emit :: "event \<Rightarrow> state \<Rightarrow> state" where
  "emit e s = s\<lparr>trace := trace s @ [e]\<rparr>"

text \<open>The events a call added: the trace of the state after it, without the trace before.\<close>

definition events_since :: "state \<Rightarrow> state \<Rightarrow> event list" where
  "events_since s s' = drop (length (trace s)) (trace s')"

subsection \<open>Library functions the file calls\<close>

text \<open>\<^verbatim>\<open>std::to_string\<close> of an unsigned value: its decimal digits.\<close>

definition digit_char :: "nat \<Rightarrow> char" where
  "digit_char d = ''0123456789'' ! d"

fun to_string :: "nat \<Rightarrow> string" where
  "to_string n = (if n < 10 then [digit_char n] else to_string (n div 10) @ [digit_char (n mod 10)])"

declare to_string.simps [simp del]

text \<open>The text \<^verbatim>\<open>operator<<\<close> prints for a signed value.\<close>

definition int_to_string :: "int \<Rightarrow> string" where
  "int_to_string i = (if i < 0 then CHR ''-'' # to_string (nat (- i)) else to_string (nat i))"

text \<open>\<^verbatim>\<open>c_str()\<close> read as a C string: the characters before the first NUL.\<close>

definition c_str :: "string \<Rightarrow> string" where
  "c_str s = takeWhile (\<lambda>c. c \<noteq> NUL) s"

text \<open>\<^verbatim>\<open>memcpy(buffer + off, src, n)\<close>, for \<open>off + n\<close> within the buffer and
  \<open>n\<close> within \<open>src\<close>.\<close>

definition memcpy :: "char list \<Rightarrow> nat \<Rightarrow> char list \<Rightarrow> nat \<Rightarrow> char list" where
  "memcpy buffer off src n = take off buffer @ take n src @ drop (off + n) buffer"

text \<open>\<^verbatim>\<open>property_get(key, value, default_value)\<close>: the value of the property, the default
  when the property is unset or empty.\<close>

definition property_get :: "state \<Rightarrow> string \<Rightarrow> string \<Rightarrow> string" where
  "property_get s k dflt = (case props s k of None \<Rightarrow> dflt | Some v \<Rightarrow> if v = [] then dflt else v)"

definition property_set :: "string \<Rightarrow> string \<Rightarrow> state \<Rightarrow> state" where
  "property_set k v s = emit (PropertySet k v) (s\<lparr>props := (props s)(k \<mapsto> v)\<rparr>)"

text \<open>
  Modelled from the spec: \<^verbatim>\<open>android::vold::StrToHex\<close> of \<^verbatim>\<open>Utils.cpp\<close>, which is not
  among the sources. The spec says that it hex-encodes the key; the model writes each
  byte as two hexadecimal digits, the high nibble first.
\<close>

definition hex_digit :: "nat \<Rightarrow> char" where
  "hex_digit d = ''0123456789abcdef'' ! d"

definition hex_byte :: "char \<Rightarrow> string" where
  "hex_byte c = [hex_digit (of_char c div 16), hex_digit (of_char c mod 16)]"

definition StrToHex_spec :: "KeyBuffer \<Rightarrow> KeyBuffer option" where
  "StrToHex_spec key = Some (concat (map hex_byte key))"

subsection \<open>The functions of the file\<close>

definition mount_via_fs_mgr :: "env \<Rightarrow> string \<Rightarrow> string \<Rightarrow> state \<Rightarrow> bool \<times> state" where
  "mount_via_fs_mgr w mount_pt blk_dev s =
     (let s1 = emit (Setexeccon True) s in
      if \<not> setexeccon_ok w True then (False, emit (PLog ERROR ''Failed to setexeccon'') s1)
      else
        let s2 = emit (FsMgrDoMount mount_pt blk_dev) s1;
            mount_rc = fs_mgr_do_mount w mount_pt blk_dev;
            s3 = emit (Setexeccon False) s2
        in if \<not> setexeccon_ok w False then (False, emit (PLog ERROR ''Failed to clear setexeccon'') s3)
           else if mount_rc \<noteq> 0 then
             (False, emit (Log ERROR (''fs_mgr_do_mount failed with rc '' @ int_to_string mount_rc)) s3)
           else (True, emit (Log DEBUG (''Mounted '' @ mount_pt)) s3))"

definition read_key :: "env \<Rightarrow> bool \<Rightarrow> state \<Rightarrow> (error + KeyBuffer) \<times> state" where
  "read_key w create_if_absent s =
     (case fs_mgr_get_crypt_entry w of
        None \<Rightarrow> (Inl VolumeNotFound, emit (Log ERROR ''Failed to get data_rec'') s)
      | Some data_rec \<Rightarrow>
          (case key_dir data_rec of
             None \<Rightarrow> (Inl KeyDirMissing, emit (Log ERROR ''Failed to get key_dir'') s)
           | Some kd \<Rightarrow>
               let s1 = emit (Log DEBUG (''key_dir: '' @ kd)) s in
               if \<not> pathExists w kd \<and> \<not> mkdir_ok w kd then
                 (Inl KeyDirCreateError, emit (PLog ERROR (''Unable to create: '' @ kd)) (emit (Mkdir kd) s1))
               else
                 let s2 = (if \<not> pathExists w kd
                           then emit (Log DEBUG (''Created: '' @ kd)) (emit (Mkdir kd) s1) else s1);
                     dir = kd @ ''/key'';
                     temp = kd @ ''/tmp'';
                     s3 = emit (RetrieveKey create_if_absent dir temp) s2
                 in (case retrieveKey w create_if_absent dir temp of
                       None \<Rightarrow> (Inl KeyMissing, s3)
                     | Some key \<Rightarrow> (Inr key, s3))))"

text \<open>
  \<^verbatim>\<open>default_key_params\<close> has no failure return: when the hex conversion fails it logs
  and returns the empty \<^verbatim>\<open>KeyBuffer()\<close>.
\<close>

definition default_key_params :: "env \<Rightarrow> string \<Rightarrow> KeyBuffer \<Rightarrow> state \<Rightarrow> KeyBuffer \<times> state" where
  "default_key_params w real_blkdev key s =
     (case StrToHex w key of
        None \<Rightarrow> ([], emit (Log ERROR ''Failed to turn key to hex'') s)
      | Some hex_key \<Rightarrow>
          let res = [] @ ''AES-256-XTS '' @ hex_key @ '' '' @ c_str real_blkdev @ '' 0''
          in (res, emit (Log DEBUG (''crypt_params: '' @ res)) s))"

definition get_number_of_sectors :: "env \<Rightarrow> string \<Rightarrow> state \<Rightarrow> (error + 64 word) \<times> state" where
  "get_number_of_sectors w real_blkdev s =
     (let s1 = emit (OpenDev real_blkdev) s in
      if \<not> open_ok w real_blkdev then
        (Inl DeviceOpenError, emit (PLog ERROR (''Unable to open '' @ real_blkdev @ '' to measure size'')) s1)
      else
        let res = get_blkdev_size w real_blkdev in
        if res = 0 then
          (Inl SizeQueryError, emit (PLog ERROR (''Unable to measure size of '' @ real_blkdev)) s1)
        else (Inr res, s1))"

text \<open>Sequencing: a step that returned \<^verbatim>\<open>false\<close> ends the function with its state.\<close>

definition and_then ::
  "(error + 'a) \<times> state \<Rightarrow> ('a \<Rightarrow> state \<Rightarrow> (error + 'b) \<times> state) \<Rightarrow> (error + 'b) \<times> state" where
  "and_then m f = (case m of (Inl e, s) \<Rightarrow> (Inl e, s) | (Inr x, s) \<Rightarrow> f x s)"

text \<open>
  \<^verbatim>\<open>dm_ioctl_init\<close>: \<open>None\<close> is the null pointer. The buffer is zeroed whole, so the
  result does not depend on what the array held before.
\<close>

definition dm_ioctl_init :: "nat \<Rightarrow> string \<Rightarrow> state \<Rightarrow> dm_buffer option \<times> state" where
  "dm_ioctl_init buffer_size dm_name s =
     (if buffer_size < sizeof_dm_ioctl then (None, emit (Log ERROR ''dm_ioctl buffer too small'') s)
      else
        (Some \<lparr>buf_io = \<lparr>io_version = (4, 0, 0), io_data_size = of_nat buffer_size,
                          io_data_start = of_nat sizeof_dm_ioctl, io_target_count = 0,
                          io_flags = 0, io_dev = 0, io_name = take DM_NAME_LEN dm_name\<rparr>,
               buf_tgt = \<lparr>tgt_sector_start = 0, tgt_length = 0, tgt_status = 0, tgt_next = 0,
                           tgt_target_type = []\<rparr>,
               buf_bytes = replicate buffer_size NUL\<rparr>, s))"

text \<open>
  Modelled from the spec: the device-mapper driver behind \<^verbatim>\<open>ioctl\<close>, which is the
  kernel's and not part of the repository. Whether a command succeeds is the
  environment's answer, with one rule added from section 4.4 of the spec: the create
  command is rejected for a name that is already present, and registers the name
  otherwise. The status command stores the device number in the header. \<open>i\<close> counts
  the load commands the caller has issued before this one. The source uses these four
  commands and no other; it never removes a mapping.
\<close>

definition ioctl :: "env \<Rightarrow> nat \<Rightarrow> dm_cmd \<Rightarrow> dm_buffer \<Rightarrow> state \<Rightarrow> bool \<times> dm_buffer \<times> state" where
  "ioctl w i cmd io s =
     (case cmd of
        DM_DEV_CREATE \<Rightarrow>
          if dev_create_ok w \<and> io_name (buf_io io) \<notin> set (mappings s)
          then (True, io, emit (Ioctl cmd io True) (s\<lparr>mappings := io_name (buf_io io) # mappings s\<rparr>))
          else (False, io, emit (Ioctl cmd io False) s)
      | DM_DEV_STATUS \<Rightarrow>
          (case dev_status w of
             None \<Rightarrow> (False, io, emit (Ioctl cmd io False) s)
           | Some d \<Rightarrow> (True, io\<lparr>buf_io := (buf_io io)\<lparr>io_dev := d\<rparr>\<rparr>, emit (Ioctl cmd io True) s))
      | DM_TABLE_LOAD \<Rightarrow> (table_load_ok w i, io, emit (Ioctl cmd io (table_load_ok w i)) s)
      | DM_DEV_SUSPEND \<Rightarrow> (dev_suspend_ok w, io, emit (Ioctl cmd io (dev_suspend_ok w)) s))"

text \<open>\<^verbatim>\<open>create_crypto_blk_dev\<close>, lines 151 to 162: open the driver and create the mapping.\<close>

definition crypto_blk_dev_create :: "env \<Rightarrow> string \<Rightarrow> state \<Rightarrow> (error + unit) \<times> state" where
  "crypto_blk_dev_create w dm_name s =
     (let s1 = emit (OpenDev ''/dev/device-mapper'') s in
      if \<not> open_ok w ''/dev/device-mapper'' then
        (Inl DeviceMapperOpenError, emit (PLog ERROR ''Cannot open device-mapper'') s1)
      else
        (case dm_ioctl_init DM_CRYPT_BUF_SIZE dm_name s1 of
           (None, s2) \<Rightarrow>
             (Inl DriverError, emit (PLog ERROR (''Cannot create dm-crypt device '' @ dm_name)) s2)
         | (Some io, s2) \<Rightarrow>
             (case ioctl w 0 DM_DEV_CREATE io s2 of
                (ok, io', s3) \<Rightarrow>
                  if \<not> ok then
                    (Inl DriverError, emit (PLog ERROR (''Cannot create dm-crypt device '' @ dm_name)) s3)
                  else (Inr (), s3))))"

text \<open>Lines 164 to 171: the device status and the name of the device file.\<close>

definition dm_minor :: "64 word \<Rightarrow> 64 word" where
  "dm_minor dev = (dev AND 0xff) OR (drop_bit 12 dev AND 0xfff00)"

definition crypto_blk_dev_status :: "env \<Rightarrow> string \<Rightarrow> state \<Rightarrow> (error + string) \<times> state" where
  "crypto_blk_dev_status w dm_name s =
     (case dm_ioctl_init DM_CRYPT_BUF_SIZE dm_name s of
        (None, s1) \<Rightarrow> (Inl NullDereference, s1)
      | (Some io, s1) \<Rightarrow>
          (case ioctl w 0 DM_DEV_STATUS io s1 of
             (ok, io', s2) \<Rightarrow>
               if \<not> ok then
                 (Inl StatusQueryError,
                  emit (PLog ERROR (''Cannot retrieve dm-crypt device status '' @ dm_name)) s2)
               else
                 (Inr (''/dev/block/dm-'' @ to_string (unat (dm_minor (io_dev (buf_io io'))))), s2)))"

text \<open>
  Lines 173 to 192: the buffer of the load command. The sizes are \<^verbatim>\<open>size_t\<close>; they are
  natural numbers here, since a sum of 352 and the size of a buffer in memory does not
  wrap. The store \<^verbatim>\<open>buffer[nullix] = '\0'\<close> is unchecked in the source: at an index
  outside the array the behaviour is undefined, and the model ends there with
  \<open>WriteOutOfBounds\<close>.
\<close>

definition table_load_buffer ::
  "string \<Rightarrow> 64 word \<Rightarrow> string \<Rightarrow> KeyBuffer \<Rightarrow> state \<Rightarrow> (error + dm_buffer) \<times> state" where
  "table_load_buffer dm_name nr_sec target_type crypt_params s =
     (case dm_ioctl_init DM_CRYPT_BUF_SIZE dm_name s of
        (None, s1) \<Rightarrow> (Inl NullDereference, s1)
      | (Some io, s1) \<Rightarrow>
          let paramix = unat (io_data_start (buf_io io)) + sizeof_dm_target_spec;
              nullix = paramix + length crypt_params;
              endix = (nullix + 1 + 7) AND 8
          in if endix > DM_CRYPT_BUF_SIZE then
               (Inl ParamsTooLarge, emit (Log ERROR ''crypt_params too big for DM_CRYPT_BUF_SIZE'') s1)
             else
               let tgt = \<lparr>tgt_sector_start = 0, tgt_length = nr_sec, tgt_status = 0, tgt_next = 0,
                          tgt_target_type = take DM_MAX_TYPE_NAME target_type\<rparr>;
                   bytes = memcpy (buf_bytes io) paramix crypt_params
                             (min (length crypt_params) (DM_CRYPT_BUF_SIZE - paramix))
               in if nullix \<ge> DM_CRYPT_BUF_SIZE then (Inl (WriteOutOfBounds nullix), s1)
                  else
                    (Inr (io\<lparr>buf_io := (buf_io io)\<lparr>io_target_count := 1\<rparr>,
                              buf_tgt := tgt\<lparr>tgt_next := of_nat endix\<rparr>,
                              buf_bytes := bytes[nullix := NUL]\<rparr>), s1))"

text \<open>Lines 194 to 204: the load command and its retries. \<open>i\<close> is the \<^verbatim>\<open>int i\<close> of
  the loop, which starts at 0 and stays below \<^verbatim>\<open>TABLE_LOAD_RETRIES\<close>.\<close>

function table_load_loop :: "env \<Rightarrow> dm_buffer \<Rightarrow> nat \<Rightarrow> state \<Rightarrow> (error + unit) \<times> state" where
  "table_load_loop w io i s =
     (let r = ioctl w i DM_TABLE_LOAD io s; s1 = snd (snd r) in
      if fst r then (Inr (), s1)
      else if i + 1 \<ge> TABLE_LOAD_RETRIES then
        (Inl TableLoadFailed, emit (PLog ERROR ''DM_TABLE_LOAD ioctl failed'') s1)
      else
        table_load_loop w io (i + 1)
          (emit (Usleep 500000) (emit (PLog INFO ''DM_TABLE_LOAD ioctl failed, retrying'') s1)))"
  by pat_completeness auto
termination
  by (relation "measure (\<lambda>(w, io, i, s). TABLE_LOAD_RETRIES - i)") auto

declare table_load_loop.simps [simp del]

text \<open>Lines 206 to 212: resume the device to activate it.\<close>

definition crypto_blk_dev_resume :: "env \<Rightarrow> string \<Rightarrow> state \<Rightarrow> (error + unit) \<times> state" where
  "crypto_blk_dev_resume w dm_name s =
     (case dm_ioctl_init DM_CRYPT_BUF_SIZE dm_name s of
        (None, s1) \<Rightarrow> (Inl NullDereference, s1)
      | (Some io, s1) \<Rightarrow>
          (case ioctl w 0 DM_DEV_SUSPEND io s1 of
             (ok, io', s2) \<Rightarrow>
               if \<not> ok then
                 (Inl ActivationFailed, emit (PLog ERROR (''Cannot resume dm-crypt device '' @ dm_name)) s2)
               else (Inr (), s2)))"

text \<open>
  \<^verbatim>\<open>create_crypto_blk_dev\<close>, the steps in their order. The source stores the name of the
  device file in \<^verbatim>\<open>*crypto_blkdev\<close> as soon as the status is read; its callers read it
  only after \<^verbatim>\<open>true\<close>, so the model returns it with \<open>Inr\<close>.
\<close>

definition create_crypto_blk_dev ::
  "env \<Rightarrow> string \<Rightarrow> 64 word \<Rightarrow> string \<Rightarrow> KeyBuffer \<Rightarrow> state \<Rightarrow> (error + string) \<times> state" where
  "create_crypto_blk_dev w dm_name nr_sec target_type crypt_params s =
     and_then (crypto_blk_dev_create w dm_name s) (\<lambda>_ s1.
     and_then (crypto_blk_dev_status w dm_name s1) (\<lambda>crypto_blkdev s2.
     and_then (table_load_buffer dm_name nr_sec target_type crypt_params s2) (\<lambda>io s3.
     and_then (table_load_loop w io 0 s3) (\<lambda>_ s4.
     and_then (crypto_blk_dev_resume w dm_name s4) (\<lambda>_ s5.
       (Inr crypto_blkdev, s5))))))"

text \<open>The entry \<^verbatim>\<open>fs_mgr_get_crypt_entry(fstab)\<close> as the two entry points read it.\<close>

definition get_data_rec :: "env \<Rightarrow> state \<Rightarrow> (error + fstab_rec) \<times> state" where
  "get_data_rec w s =
     (case fs_mgr_get_crypt_entry w of
        None \<Rightarrow> (Inl VolumeNotFound, emit (Log ERROR ''Failed to get data_rec'') s)
      | Some data_rec \<Rightarrow> (Inr data_rec, s))"

text \<open>
  \<^verbatim>\<open>prep_data_fs\<close>, lines 216 to 241. The loop reads the property with the default
  \<^verbatim>\<open>"0"\<close> and tests its first character. Its counter is an \<^verbatim>\<open>int\<close> that starts at 0 and
  stops at 999; it is a word of 32 bits here, so that the function is defined for every
  start value.
\<close>

function prep_data_fs_poll :: "env \<Rightarrow> 32 word \<Rightarrow> state \<Rightarrow> bool \<times> state" where
  "prep_data_fs_poll w i s =
     (if (case post_fs_data_done w (unat i) of [] \<Rightarrow> False | c # p \<Rightarrow> c = CHR ''1'') then
        (True, emit (Log INFO ''Successful data prep'') s)
      else if i + 1 = DATA_PREP_TIMEOUT then
        (False, emit (Log ERROR ''post_fs_data timed out'') s)
      else prep_data_fs_poll w (i + 1) (emit (Usleep 50000) s))"
  by pat_completeness auto
termination
proof (relation "measure (\<lambda>(w, i, s). unat (DATA_PREP_TIMEOUT - 1 - i))")
  show "wf (measure (\<lambda>(w, i, s). unat (DATA_PREP_TIMEOUT - 1 - i)))"
    by simp
next
  fix w :: env and i :: "32 word" and s :: state
  assume "i + 1 \<noteq> DATA_PREP_TIMEOUT"
  then have "DATA_PREP_TIMEOUT - 1 - i \<noteq> 0"
    by auto
  then have "unat (DATA_PREP_TIMEOUT - 1 - i - 1) < unat (DATA_PREP_TIMEOUT - 1 - i)"
    by (rule measure_unat)
  moreover have "DATA_PREP_TIMEOUT - 1 - (i + 1) = DATA_PREP_TIMEOUT - 1 - i - 1"
    by simp
  ultimately show "((w, i + 1, emit (Usleep 50000) s), (w, i, s))
      \<in> measure (\<lambda>(w, i, s). unat (DATA_PREP_TIMEOUT - 1 - i))"
    by simp
qed

declare prep_data_fs_poll.simps [simp del]

definition prep_data_fs :: "env \<Rightarrow> state \<Rightarrow> bool \<times> state" where
  "prep_data_fs w s =
     (let s1 = property_set ''vold.post_fs_data_done'' ''0'' s;
          s2 = property_set ''vold.decrypt'' ''trigger_post_fs_data'' s1;
          s3 = emit (Log DEBUG ''Waiting for post_fs_data_done'') s2
      in prep_data_fs_poll w 0 s3)"

text \<open>\<^verbatim>\<open>async_kick_off\<close>, lines 243 to 250: the body of the detached thread.\<close>

definition async_kick_off :: "env \<Rightarrow> state \<Rightarrow> state" where
  "async_kick_off w s =
     (let s1 = emit (Log DEBUG ''Asynchronously restarting framework'') s;
          s2 = emit (Sleep 2) s1;
          s3 = property_set ''vold.decrypt'' ''trigger_load_persist_props'' s2;
          (ok, s4) = prep_data_fs w s3
      in if \<not> ok then s4
         else property_set ''vold.decrypt'' ''trigger_restart_framework'' s4)"

text \<open>The two entry points start \<^verbatim>\<open>async_kick_off\<close> on a detached thread and return: the
  trace records the start, and the body runs from the state they leave.\<close>

definition e4crypt_mount_metadata_encrypted :: "env \<Rightarrow> state \<Rightarrow> (error + unit) \<times> state" where
  "e4crypt_mount_metadata_encrypted w s =
     and_then (read_key w False (emit (Log DEBUG ''e4crypt_mount_default_encrypted'') s)) (\<lambda>key s1.
     and_then (get_data_rec w s1) (\<lambda>data_rec s2.
     and_then (get_number_of_sectors w (blk_device data_rec) s2) (\<lambda>nr_sec s3.
     (case default_key_params w (blk_device data_rec) key s3 of
        (crypt_params, s4) \<Rightarrow>
     and_then (create_crypto_blk_dev w kDmNameUserdata nr_sec DEFAULT_KEY_TARGET_TYPE crypt_params s4)
       (\<lambda>crypto_blkdev s5.
          let s6 = emit (Log DEBUG ''Restarting filesystem for metadata encryption'') s5;
              s7 = snd (mount_via_fs_mgr w (mount_point data_rec) crypto_blkdev s6)
          in (Inr (), emit ThreadDetach s7))))))"

text \<open>\<^verbatim>\<open>e4crypt_enable_crypto\<close>, lines 298 to 318: the in-place encryption of the mapped
  device and what follows it.\<close>

definition enable_inplace ::
  "env \<Rightarrow> fstab_rec \<Rightarrow> 64 word \<Rightarrow> string \<Rightarrow> state \<Rightarrow> (error + unit) \<times> state" where
  "enable_inplace w data_rec nr_sec crypto_blkdev s =
     (let s1 = emit (Log INFO (''Beginning inplace encryption, nr_sec: '' @ to_string (unat nr_sec))) s;
          (rc, size_already_done) = cryptfs_enable_inplace w crypto_blkdev (blk_device data_rec) nr_sec;
          s2 = emit (CryptfsEnableInplace crypto_blkdev (blk_device data_rec) nr_sec rc size_already_done) s1
      in if rc \<noteq> 0 then
           (Inl (TransformFailed rc),
            emit (Log ERROR (''Inplace crypto failed with code: '' @ int_to_string rc)) s2)
         else if size_already_done \<noteq> nr_sec then
           (Inl PartialTransform,
            emit (Log ERROR (''Inplace crypto only got up to sector: '' @
                              int_to_string (sint size_already_done))) s2)
         else
           let s3 = emit (Log INFO ''Inplace encryption complete'') s2;
               s4 = property_set ''ro.crypto.state'' ''encrypted'' s3;
               s5 = property_set ''ro.crypto.type'' ''file'' s4;
               s6 = snd (mount_via_fs_mgr w (mount_point data_rec) crypto_blkdev s5);
               s7 = property_set ''vold.decrypt'' ''trigger_reset_main'' s6
           in (Inr (), emit ThreadDetach s7))"

definition e4crypt_enable_crypto :: "env \<Rightarrow> state \<Rightarrow> (error + unit) \<times> state" where
  "e4crypt_enable_crypto w s =
     (let s0 = emit (Log DEBUG ''e4crypt_enable_crypto'') s;
          encrypted_state = property_get s0 ''ro.crypto.state'' []
      in if encrypted_state \<noteq> [] then
           (Inl AlreadyEncryptedOrUnexpectedState,
            emit (Log DEBUG (''e4crypt_enable_crypto got unexpected starting state: '' @ encrypted_state)) s0)
         else
     and_then (read_key w True s0) (\<lambda>key_ref s1.
     and_then (get_data_rec w s1) (\<lambda>data_rec s2.
     and_then (get_number_of_sectors w (blk_device data_rec) s2) (\<lambda>nr_sec s3.
     (case default_key_params w (blk_device data_rec) key_ref s3 of
        (crypt_params, s4) \<Rightarrow>
     and_then (create_crypto_blk_dev w kDmNameUserdata nr_sec DEFAULT_KEY_TARGET_TYPE crypt_params s4)
       (enable_inplace w data_rec nr_sec))))))"

subsection \<open>Example environments\<close>

text \<open>
  A volume of 1000000 sectors on \<^verbatim>\<open>/dev/block/sda\<close> with a two-byte key, a driver that
  accepts every command and reports device 253:3, a transform that completes, a
  mount that succeeds and data preparation that is done at the first poll; and the state
  of a system with no mapping and no property set.
\<close>

definition rec0 :: fstab_rec where
  "rec0 = \<lparr>blk_device = ''/dev/block/sda'', mount_point = ''/data'', key_dir = Some ''/metadata/vold''\<rparr>"

definition w0 :: env where
  "w0 = \<lparr>fs_mgr_get_crypt_entry = Some rec0, pathExists = (\<lambda>_. True), mkdir_ok = (\<lambda>_. True),
          retrieveKey = (\<lambda>_ _ _. Some ''k1''), StrToHex = StrToHex_spec, open_ok = (\<lambda>_. True),
          get_blkdev_size = (\<lambda>_. 1000000), dev_create_ok = True, dev_status = Some 0xFD03,
          table_load_ok = (\<lambda>i. True), dev_suspend_ok = True,
          cryptfs_enable_inplace = (\<lambda>_ _ n. (0, n)), setexeccon_ok = (\<lambda>_. True),
          fs_mgr_do_mount = (\<lambda>_ _. 0), post_fs_data_done = (\<lambda>_. ''1'')\<rparr>"

definition s0 :: state where
  "s0 = \<lparr>mappings = [], props = Map.empty, trace = []\<rparr>"

text \<open>The parameter string of the example volume.\<close>

definition params0 :: KeyBuffer where
  "params0 = ''AES-256-XTS 6b31 /dev/block/sda 0''"

text \<open>A parameter string of 3744 bytes: a key of 64 zero bytes and a device path of 3601
  characters. With the header, the target spec and the terminator it needs 4097 bytes.\<close>

definition params_long :: KeyBuffer where
  "params_long = ''AES-256-XTS '' @ replicate 128 CHR ''0'' @ '' /'' @ replicate 3600 CHR ''a'' @ '' 0''"

text \<open>The example environment with a transform that stops after 500000 of the 1000000
  sectors, with a mount that fails, and with a hex conversion that fails.\<close>

definition w_partial :: env where
  "w_partial = w0\<lparr>cryptfs_enable_inplace := (\<lambda>_ _ n. (0, 500000))\<rparr>"

definition w_mount_fails :: env where
  "w_mount_fails = w0\<lparr>fs_mgr_do_mount := (\<lambda>_ _. - 1)\<rparr>"

definition w_hex_fails :: env where
  "w_hex_fails = w0\<lparr>StrToHex := (\<lambda>_. None)\<rparr>"

subsection \<open>Reading a trace\<close>

text \<open>What one failed load attempt that is retried leaves in the trace: the ioctl, the log
  line and the sleep of 500000 microseconds.\<close>

definition load_retry :: "dm_buffer \<Rightarrow> event list" where
  "load_retry io = [Ioctl DM_TABLE_LOAD io False, PLog INFO ''DM_TABLE_LOAD ioctl failed, retrying'', Usleep 500000]"

text \<open>Load commands, resume commands and \<^verbatim>\<open>ERROR\<close> lines of the log.\<close>

definition is_table_load :: "event \<Rightarrow> bool" where
  "is_table_load e = (case e of Ioctl DM_TABLE_LOAD b r \<Rightarrow> True | _ \<Rightarrow> False)"

definition is_resume :: "event \<Rightarrow> bool" where
  "is_resume e = (case e of Ioctl DM_DEV_SUSPEND b r \<Rightarrow> True | _ \<Rightarrow> False)"

definition is_error_log :: "event \<Rightarrow> bool" where
  "is_error_log e = (case e of Log ERROR m \<Rightarrow> True | PLog ERROR m \<Rightarrow> True | _ \<Rightarrow> False)"

text \<open>
  Classes of events: \<open>silent\<close> events set no property, start no transform and start no
  thread; \<open>no_ioctl\<close> events are not commands to the device-mapper driver.
\<close>

definition silent :: "event \<Rightarrow> bool" where
  "silent e = (case e of PropertySet k v \<Rightarrow> False | CryptfsEnableInplace c b n rc d \<Rightarrow> False
                 | ThreadDetach \<Rightarrow> False | _ \<Rightarrow> True)"

definition no_ioctl :: "event \<Rightarrow> bool" where
  "no_ioctl e = (case e of Ioctl c b r \<Rightarrow> False | _ \<Rightarrow> True)"

text \<open>\<open>adds Q s s'\<close>: the trace of \<open>s'\<close> is the trace of \<open>s\<close> followed by events that all
  satisfy \<open>Q\<close>. \<open>quiet_from s s'\<close>: these events are silent and no property changed.\<close>

definition adds :: "(event \<Rightarrow> bool) \<Rightarrow> state \<Rightarrow> state \<Rightarrow> bool" where
  "adds Q s s' \<longleftrightarrow> take (length (trace s)) (trace s') = trace s \<and> list_all Q (events_since s s')"

definition quiet_from :: "state \<Rightarrow> state \<Rightarrow> bool" where
  "quiet_from s s' \<longleftrightarrow> adds silent s s' \<and> props s' = props s"

text \<open>What holds of every step of \<^verbatim>\<open>create_crypto_blk_dev\<close> after the create command: it
  leaves the properties and the mappings alone, adds silent events only, and does not fail
  with one of the two errors of the create step.\<close>

definition later_step :: "state \<Rightarrow> (error + 'a) \<times> state \<Rightarrow> bool" where
  "later_step s m \<longleftrightarrow> props (snd m) = props s \<and> adds silent s (snd m) \<and> mappings (snd m) = mappings s
     \<and> fst m \<noteq> Inl DriverError \<and> fst m \<noteq> Inl DeviceMapperOpenError"

text \<open>The end of the payload as the spec describes it: the first multiple of 8 after the
  terminator at \<open>nullix\<close>.\<close>

definition padded_end :: "nat \<Rightarrow> nat" where
  "padded_end nullix = (nullix + 1 + 7) div 8 * 8"

subsection \<open>Two runs with different keys\<close>

text \<open>
  The parameter string reaches the outside in two places: the DEBUG line of
  \<^verbatim>\<open>default_key_params\<close> (line 107), which starts with \<^verbatim>\<open>crypt_params: \<close>, and the bytes
  of the buffer of the load command, which hand it to the driver. \<open>redact\<close> blanks these
  two and leaves every other event as it is.
\<close>

fun redact :: "event \<Rightarrow> event" where
  "redact (Log DEBUG m) =
     (if take 14 m = ''crypt_params: '' then Log DEBUG ''crypt_params: '' else Log DEBUG m)"
| "redact (Ioctl DM_TABLE_LOAD b r) = Ioctl DM_TABLE_LOAD (b\<lparr>buf_bytes := []\<rparr>) r"
| "redact e = e"

text \<open>
  Two states are alike when they hold the same mappings and the same properties and
  their traces are equal after \<open>redact\<close>; two runs are alike when they return the same
  error, or results related by \<open>V\<close>, and end in states that are alike.
\<close>

definition alike :: "state \<Rightarrow> state \<Rightarrow> bool" where
  "alike s s' \<longleftrightarrow>
     mappings s = mappings s' \<and> props s = props s' \<and> map redact (trace s) = map redact (trace s')"

definition alike_run :: "('a \<Rightarrow> 'a \<Rightarrow> bool) \<Rightarrow> (error + 'a) \<times> state \<Rightarrow> (error + 'a) \<times> state \<Rightarrow> bool" where
  "alike_run V m m' \<longleftrightarrow> rel_sum (=) V (fst m) (fst m') \<and> alike (snd m) (snd m')"

text \<open>Two buffers that differ at most in their bytes.\<close>

definition buf_alike :: "dm_buffer \<Rightarrow> dm_buffer \<Rightarrow> bool" where
  "buf_alike tb tb' \<longleftrightarrow> tb\<lparr>buf_bytes := []\<rparr> = tb'\<lparr>buf_bytes := []\<rparr>"

text \<open>
  Two environments that differ at most in the key that \<^verbatim>\<open>retrieveKey\<close> returns and in its
  hex conversion: every other answer is the same, a key is found in the one when it is
  found in the other, and the conversions of the two keys fail together or give strings
  of the same length.
\<close>

definition hex_alike :: "env \<Rightarrow> env \<Rightarrow> KeyBuffer \<Rightarrow> KeyBuffer \<Rightarrow> bool" where
  "hex_alike w w' key key' \<longleftrightarrow>
     map_option length (StrToHex w key) = map_option length (StrToHex w' key')"

definition same_but_key :: "env \<Rightarrow> env \<Rightarrow> bool" where
  "same_but_key w w' \<longleftrightarrow>
     w' = w\<lparr>retrieveKey := retrieveKey w', StrToHex := StrToHex w'\<rparr> \<and>
     (\<forall>c dir temp. rel_option (hex_alike w w') (retrieveKey w c dir temp) (retrieveKey w' c dir temp))"

text \<open>The example environment with another key of two bytes.\<close>

definition w_other_key :: env where
  "w_other_key = w0\<lparr>retrieveKey := (\<lambda>_ _ _. Some ''k2'')\<rparr>"

section \<open>Properties\<close>

subsection \<open>Basic facts\<close>

lemma and_then_Inl [simp]: "and_then (Inl e, s) f = (Inl e, s)"
  by (simp add: and_then_def)

lemma and_then_Inr [simp]: "and_then (Inr x, s) f = f x s"
  by (simp add: and_then_def)

lemma and_then_rule:
  assumes "\<And>e s1. m = (Inl e, s1) \<Longrightarrow> R (Inl e, s1)"
    and "\<And>x s1. m = (Inr x, s1) \<Longrightarrow> R (f x s1)"
  shows "R (and_then m f)"
proof (cases m)
  case (Pair r s1)
  with assms show ?thesis by (cases r) simp_all
qed

lemma emit_fields [simp]:
  "mappings (emit e s) = mappings s" "props (emit e s) = props s" "trace (emit e s) = trace s @ [e]"
  by (simp_all add: emit_def)

lemma property_set_fields [simp]:
  "mappings (property_set k v s) = mappings s" "props (property_set k v s) = (props s)(k \<mapsto> v)"
  "trace (property_set k v s) = trace s @ [PropertySet k v]"
  by (simp_all add: property_set_def)

lemma events_sinceI: "trace s' = trace s @ evs \<Longrightarrow> events_since s s' = evs"
  by (simp add: events_since_def)

lemma filter_concat_replicate:
  "filter P (concat (replicate n xs)) = concat (replicate n (filter P xs))"
  by (induction n) simp_all

lemma length_concat_replicate: "length (concat (replicate n xs)) = n * length xs"
  by (induction n) simp_all

text \<open>The definitions that evaluate a run on an example.\<close>

lemmas create_steps = create_crypto_blk_dev_def crypto_blk_dev_create_def crypto_blk_dev_status_def
  crypto_blk_dev_resume_def table_load_buffer_def dm_ioctl_init_def ioctl_def

lemmas sizes = DM_CRYPT_BUF_SIZE_def sizeof_dm_ioctl_def sizeof_dm_target_spec_def DM_NAME_LEN_def
  DM_MAX_TYPE_NAME_def kDmNameUserdata_def DEFAULT_KEY_TARGET_TYPE_def

lemmas run_steps = e4crypt_enable_crypto_def e4crypt_mount_metadata_encrypted_def enable_inplace_def
  read_key_def get_data_rec_def get_number_of_sectors_def default_key_params_def create_steps
  table_load_loop.simps property_get_def mount_via_fs_mgr_def

lemmas example_values = w0_def s0_def rec0_def sizes StrToHex_spec_def hex_byte_def hex_digit_def
  c_str_def NUL_def dm_minor_def to_string.simps digit_char_def int_to_string_def

subsection \<open>Traces that grow\<close>

lemma adds_iff: "adds Q s s' \<longleftrightarrow> (\<exists>evs. trace s' = trace s @ evs \<and> list_all Q evs)"
proof
  assume a: "adds Q s s'"
  then have "trace s' = trace s @ events_since s s'"
    by (metis adds_def append_take_drop_id events_since_def)
  with a show "\<exists>evs. trace s' = trace s @ evs \<and> list_all Q evs"
    by (auto simp: adds_def)
next
  assume "\<exists>evs. trace s' = trace s @ evs \<and> list_all Q evs"
  then show "adds Q s s'"
    by (auto simp: adds_def events_since_def)
qed

lemma addsI: "trace s' = trace s @ evs \<Longrightarrow> list_all Q evs \<Longrightarrow> adds Q s s'"
  by (auto simp: adds_iff)

lemma adds_refl [simp]: "adds Q s s"
  by (simp add: adds_iff)

lemma adds_emit: "adds Q s s' \<Longrightarrow> Q e \<Longrightarrow> adds Q s (emit e s')"
  by (auto simp: adds_iff emit_def)

lemma adds_update [simp]:
  "adds Q s (s'\<lparr>mappings := m\<rparr>) \<longleftrightarrow> adds Q s s'"
  "adds Q s (s'\<lparr>props := p\<rparr>) \<longleftrightarrow> adds Q s s'"
  by (simp_all add: adds_iff)

lemma adds_trans: "adds Q s s1 \<Longrightarrow> adds Q s1 s2 \<Longrightarrow> adds Q s s2"
  by (auto simp: adds_iff)

lemma adds_mono: "adds Q s s' \<Longrightarrow> (\<And>e. Q e \<Longrightarrow> Q' e) \<Longrightarrow> adds Q' s s'"
  by (auto simp: adds_iff list_all_iff)

lemma adds_events: "adds Q s s' \<Longrightarrow> e \<in> set (events_since s s') \<Longrightarrow> Q e"
  by (auto simp: adds_def list_all_iff)

lemma adds_split: "adds Q s s' \<Longrightarrow> trace s' = trace s @ events_since s s'"
  by (auto simp: adds_iff events_since_def)

lemma events_since_trans:
  "adds Q s s1 \<Longrightarrow> adds Q' s1 s2 \<Longrightarrow> events_since s s2 = events_since s s1 @ events_since s1 s2"
  by (auto simp: adds_iff events_since_def)

lemma silent_simps [simp]:
  "\<not> silent (PropertySet k v)" "\<not> silent (CryptfsEnableInplace dev b n rc d)" "\<not> silent ThreadDetach"
  by (simp_all add: silent_def)

lemma silent_events:
  assumes "list_all (\<lambda>e. silent e \<and> Q e) evs"
  shows "PropertySet k v \<notin> set evs" and "CryptfsEnableInplace dev b n rc d \<notin> set evs"
    and "ThreadDetach \<notin> set evs"
  using assms by (auto simp: list_all_iff)

lemma quiet_from_refl [simp]: "quiet_from s s"
  by (simp add: quiet_from_def)

lemma quiet_from_emit: "quiet_from s s1 \<Longrightarrow> silent e \<Longrightarrow> quiet_from s (emit e s1)"
  by (simp add: quiet_from_def adds_emit)

lemma quiet_from_trans: "quiet_from s s1 \<Longrightarrow> quiet_from s1 s2 \<Longrightarrow> quiet_from s s2"
  by (auto simp: quiet_from_def intro: adds_trans)

lemma quiet_fromD:
  assumes "quiet_from s s'"
  shows "props s' = props s" and "\<exists>evs. trace s' = trace s @ evs \<and> list_all (\<lambda>e. silent e \<and> True) evs"
  using assms by (auto simp: quiet_from_def adds_iff)

subsection \<open>The parameter string\<close>

lemma length_hex: "length (concat (map hex_byte key)) = 2 * length key"
  by (induction key) (simp_all add: hex_byte_def)

lemma c_str_id: "NUL \<notin> set s \<Longrightarrow> c_str s = s"
  by (auto simp: c_str_def)

text \<open>
  C9: for a device path without a NUL character and a key whose hex conversion succeeds,
  the parameter string is the cipher name \<^verbatim>\<open>AES-256-XTS\<close>, the hex-encoded key, the
  path of the backing device and the start sector \<^verbatim>\<open>0\<close>, in that order, separated by
  single spaces; and the hex-encoded key, as the spec describes the conversion, is twice
  as long as the key.
\<close>

theorem default_key_params_encoding:
  assumes "NUL \<notin> set real_blkdev" and "StrToHex w key = Some hex_key"
  shows "fst (default_key_params w real_blkdev key s) =
           ''AES-256-XTS'' @ '' '' @ hex_key @ '' '' @ real_blkdev @ '' '' @ ''0''
         \<and> (StrToHex w = StrToHex_spec \<longrightarrow> length hex_key = 2 * length key)"
  using assms by (auto simp: default_key_params_def c_str_id StrToHex_spec_def length_hex Let_def)

theorem default_key_params_encoding_witness:
  "fst (default_key_params w0 ''/dev/block/sda'' ''k1'' s0) = ''AES-256-XTS 6b31 /dev/block/sda 0''
   \<and> length ''6b31'' = 2 * length ''k1''"
proof -
  have a: "NUL \<notin> set ''/dev/block/sda''" by (simp add: NUL_def)
  have b: "StrToHex w0 ''k1'' = Some ''6b31''"
    by (simp add: w0_def StrToHex_spec_def hex_byte_def hex_digit_def)
  have c: "StrToHex w0 = StrToHex_spec" by (simp add: w0_def)
  show ?thesis using default_key_params_encoding [OF a b, of s0] c by simp
qed

text \<open>
  C6, evaluated: when \<^verbatim>\<open>StrToHex\<close> fails, \<^verbatim>\<open>default_key_params\<close> logs the failure and
  returns the empty buffer. The claim expects the enclosing operation to abort. Neither
  entry point tests the buffer: both go on to create the mapping \<^verbatim>\<open>userdata\<close> with an
  empty parameter string and return \<^verbatim>\<open>true\<close>, and \<^verbatim>\<open>e4crypt_enable_crypto\<close> sets the
  state flag.
\<close>

theorem hex_failure_not_checked:
  "default_key_params w_hex_fails ''/dev/block/sda'' ''k1'' s0 =
     ([], emit (Log ERROR ''Failed to turn key to hex'') s0)
   \<and> fst (e4crypt_mount_metadata_encrypted w_hex_fails s0) = Inr ()
   \<and> mappings (snd (e4crypt_mount_metadata_encrypted w_hex_fails s0)) = [''userdata'']
   \<and> fst (e4crypt_enable_crypto w_hex_fails s0) = Inr ()
   \<and> props (snd (e4crypt_enable_crypto w_hex_fails s0)) ''ro.crypto.state'' = Some ''encrypted''"
  by (simp add: run_steps example_values w_hex_fails_def Let_def)

subsection \<open>The steps of \<^verbatim>\<open>create_crypto_blk_dev\<close>\<close>

lemma dm_ioctl_init_Some:
  "fst (dm_ioctl_init DM_CRYPT_BUF_SIZE n s) = Some b \<Longrightarrow> dm_ioctl_init DM_CRYPT_BUF_SIZE n t = (Some b, t)"
  by (simp add: dm_ioctl_init_def split: if_splits)

lemma dm_ioctl_init_name:
  "fst (dm_ioctl_init DM_CRYPT_BUF_SIZE n s) = Some b \<Longrightarrow> io_name (buf_io b) = take DM_NAME_LEN n"
  by (auto simp: dm_ioctl_init_def split: if_splits)

lemma table_load_buffer_Inr:
  "fst (table_load_buffer n nr tt p s) = Inr tb \<Longrightarrow> table_load_buffer n nr tt p t = (Inr tb, t)"
  by (simp add: table_load_buffer_def dm_ioctl_init_def Let_def split: if_splits)

lemma crypto_blk_dev_create_ok:
  assumes "open_ok w ''/dev/device-mapper''" and "dev_create_ok w"
    and "take DM_NAME_LEN n \<notin> set (mappings s)"
    and "fst (dm_ioctl_init DM_CRYPT_BUF_SIZE n s) = Some b0"
  shows "crypto_blk_dev_create w n s =
           (Inr (), s\<lparr>mappings := take DM_NAME_LEN n # mappings s,
                       trace := trace s @ [OpenDev ''/dev/device-mapper'', Ioctl DM_DEV_CREATE b0 True]\<rparr>)"
  using assms(1-3) dm_ioctl_init_name [OF assms(4)]
  by (simp add: crypto_blk_dev_create_def Let_def dm_ioctl_init_Some [OF assms(4)] ioctl_def emit_def)

lemma crypto_blk_dev_create_present:
  assumes "open_ok w ''/dev/device-mapper''" and "take DM_NAME_LEN n \<in> set (mappings s)"
    and "fst (dm_ioctl_init DM_CRYPT_BUF_SIZE n s) = Some b0"
  shows "crypto_blk_dev_create w n s =
           (Inl DriverError,
            s\<lparr>trace := trace s @ [OpenDev ''/dev/device-mapper'', Ioctl DM_DEV_CREATE b0 False,
                                  PLog ERROR (''Cannot create dm-crypt device '' @ n)]\<rparr>)"
  using assms(1,2) dm_ioctl_init_name [OF assms(3)]
  by (simp add: crypto_blk_dev_create_def Let_def dm_ioctl_init_Some [OF assms(3)] ioctl_def emit_def)

lemma crypto_blk_dev_status_ok:
  assumes "dev_status w = Some d" and "fst (dm_ioctl_init DM_CRYPT_BUF_SIZE n s) = Some b0"
  shows "crypto_blk_dev_status w n s =
           (Inr (''/dev/block/dm-'' @ to_string (unat (dm_minor d))),
            s\<lparr>trace := trace s @ [Ioctl DM_DEV_STATUS b0 True]\<rparr>)"
  using assms(1)
  by (simp add: crypto_blk_dev_status_def dm_ioctl_init_Some [OF assms(2)] ioctl_def emit_def)

lemma crypto_blk_dev_resume_eq:
  assumes "fst (dm_ioctl_init DM_CRYPT_BUF_SIZE n s) = Some b0"
  shows "crypto_blk_dev_resume w n s =
           (if dev_suspend_ok w then Inr () else Inl ActivationFailed,
            s\<lparr>trace := trace s @ Ioctl DM_DEV_SUSPEND b0 (dev_suspend_ok w) #
                 (if dev_suspend_ok w then []
                  else [PLog ERROR (''Cannot resume dm-crypt device '' @ n)])\<rparr>)"
  by (simp add: crypto_blk_dev_resume_def dm_ioctl_init_Some [OF assms] ioctl_def emit_def)

lemma dm_minor_example: "to_string (unat (dm_minor 0xFD03)) = ''3''"
  by (simp add: dm_minor_def to_string.simps digit_char_def)

lemma table_load_buffer_example:
  "\<exists>tb. fst (table_load_buffer kDmNameUserdata 1000000 DEFAULT_KEY_TARGET_TYPE params0 s0) = Inr tb"
  by (simp add: table_load_buffer_def dm_ioctl_init_def DM_CRYPT_BUF_SIZE_def sizeof_dm_ioctl_def
      sizeof_dm_target_spec_def params0_def Let_def)

lemma mapped_example:
  assumes "open_ok w ''/dev/device-mapper''" "dev_create_ok w" "dev_status w = Some 0xFD03"
    "table_load_ok w 0" "dev_suspend_ok w" "mappings s = []"
  shows "fst (create_crypto_blk_dev w kDmNameUserdata 1000000 DEFAULT_KEY_TARGET_TYPE params0 s) =
           Inr ''/dev/block/dm-3''"
  using assms
  by (simp add: create_steps table_load_loop.simps [of _ _ 0] sizes params0_def dm_minor_def
      to_string.simps digit_char_def Let_def)

lemma resume_fails_example:
  "fst (create_crypto_blk_dev (w0\<lparr>dev_suspend_ok := False\<rparr>) kDmNameUserdata 1000000
          DEFAULT_KEY_TARGET_TYPE params0 s0) = Inl ActivationFailed"
  by (simp add: create_steps sizes table_load_loop.simps w0_def s0_def params0_def Let_def)

subsection \<open>The buffer of the load command\<close>

text \<open>The source computes \<^verbatim>\<open>endix\<close> as \<^verbatim>\<open>(nullix + 1 + 7) & 8\<close>: bit 3 of the sum, 0 or 8.\<close>

lemma and_exp_cases: "(n::nat) AND 2 ^ k = (if bit n k then 2 ^ k else 0)"
  by (rule bit_eqI) (auto simp: bit_and_iff bit_exp_iff)

lemma and_8_cases: "(n::nat) AND 8 = (if bit n 3 then 8 else 0)"
  using and_exp_cases [of n 3] by simp

lemma endix_le_8: "(n::nat) AND 8 \<le> 8"
  by (simp add: and_8_cases)

text \<open>So the test \<^verbatim>\<open>endix > sizeof(buffer)\<close> is false for every input, and the \<^verbatim>\<open>next\<close>
  field of the target spec is 0 or 8 for every input.\<close>

lemma table_load_buffer_never_too_large:
  "fst (table_load_buffer dm_name nr_sec target_type crypt_params s) \<noteq> Inl ParamsTooLarge"
proof -
  have "\<not> DM_CRYPT_BUF_SIZE < (n::nat) AND 8" for n
    using endix_le_8 [of n] by (simp add: DM_CRYPT_BUF_SIZE_def)
  then show ?thesis
    by (simp add: table_load_buffer_def dm_ioctl_init_def Let_def)
qed

lemma table_load_buffer_next:
  assumes "fst (table_load_buffer dm_name nr_sec target_type crypt_params s) = Inr tb"
  shows "tgt_next (buf_tgt tb) = 0 \<or> tgt_next (buf_tgt tb) = 8"
  using assms
  by (auto simp: table_load_buffer_def dm_ioctl_init_def Let_def and_8_cases split: if_splits)

text \<open>
  C1, evaluated: \<open>params_long\<close> needs 4097 bytes, one more than the buffer has. The claim
  expects \<open>ParamsTooLarge\<close>. The source does not report it: the size test passes, and the
  terminator is stored at index 4096, past the end of the array.
\<close>

theorem params_too_large_not_reported:
  "DM_CRYPT_BUF_SIZE < sizeof_dm_ioctl + sizeof_dm_target_spec + length params_long + 1
   \<and> fst (create_crypto_blk_dev w0 kDmNameUserdata 1000000 DEFAULT_KEY_TARGET_TYPE params_long s0) =
       Inl (WriteOutOfBounds 4096)
   \<and> Log ERROR ''crypt_params too big for DM_CRYPT_BUF_SIZE'' \<notin>
       set (trace (snd (create_crypto_blk_dev w0 kDmNameUserdata 1000000 DEFAULT_KEY_TARGET_TYPE
                         params_long s0)))"
  by (simp add: create_steps sizes w0_def s0_def params_long_def Let_def)

text \<open>
  C2, evaluated: for the parameter string of the example volume (33 bytes) the payload
  starts right after the target spec, at offset 352, and the terminator follows it at
  offset 385; the padded end of the payload is 392, but the \<^verbatim>\<open>next\<close> field of the
  target spec holds 8.
\<close>

theorem table_load_buffer_next_offset:
  "\<exists>tb. table_load_buffer kDmNameUserdata 1000000 DEFAULT_KEY_TARGET_TYPE params0 s0 = (Inr tb, s0)
     \<and> take (length params0) (drop (sizeof_dm_ioctl + sizeof_dm_target_spec) (buf_bytes tb)) = params0
     \<and> buf_bytes tb ! (sizeof_dm_ioctl + sizeof_dm_target_spec + length params0) = NUL
     \<and> padded_end (sizeof_dm_ioctl + sizeof_dm_target_spec + length params0) = 392
     \<and> tgt_next (buf_tgt tb) = 8"
  by (simp add: table_load_buffer_def dm_ioctl_init_def sizes params0_def s0_def Let_def memcpy_def
      padded_end_def drop_update_swap)

subsection \<open>The load command and its retries\<close>

lemma ioctl_load [simp]:
  "ioctl w i DM_TABLE_LOAD io s = (table_load_ok w i, io, emit (Ioctl DM_TABLE_LOAD io (table_load_ok w i)) s)"
  by (simp add: ioctl_def)

lemma table_load_loop_success:
  assumes "k < TABLE_LOAD_RETRIES" and "i \<le> k"
    and "\<forall>j. i \<le> j \<and> j < k \<longrightarrow> \<not> table_load_ok w j" and "table_load_ok w k"
  shows "table_load_loop w io i s =
           (Inr (), s\<lparr>trace := trace s @ concat (replicate (k - i) (load_retry io)) @
                                  [Ioctl DM_TABLE_LOAD io True]\<rparr>)"
  using assms
proof (induction "k - i" arbitrary: i s)
  case 0
  then have "i = k" by simp
  with 0 show ?case
    by (simp add: table_load_loop.simps [of w io k s] emit_def)
next
  case (Suc n)
  then have lt: "i < k" and no: "\<not> table_load_ok w i" and n: "n = k - (i + 1)" by auto
  let ?s' = "emit (Usleep 500000) (emit (PLog INFO ''DM_TABLE_LOAD ioctl failed, retrying'')
               (emit (Ioctl DM_TABLE_LOAD io False) s))"
  have step: "table_load_loop w io i s = table_load_loop w io (i + 1) ?s'"
    using lt no Suc.prems(1) by (simp add: table_load_loop.simps [of w io i s])
  have "table_load_loop w io (i + 1) ?s' =
          (Inr (), ?s'\<lparr>trace := trace ?s' @ concat (replicate (k - (i + 1)) (load_retry io)) @
                                  [Ioctl DM_TABLE_LOAD io True]\<rparr>)"
    using Suc.hyps(1) [OF n] Suc.prems lt by simp
  moreover have "k - i = Suc (k - (i + 1))" using lt by simp
  ultimately show ?case
    unfolding step by (simp add: emit_def load_retry_def)
qed

lemma table_load_loop_exhausted:
  assumes "i < TABLE_LOAD_RETRIES"
    and "\<forall>j. i \<le> j \<and> j < TABLE_LOAD_RETRIES \<longrightarrow> \<not> table_load_ok w j"
  shows "table_load_loop w io i s =
           (Inl TableLoadFailed,
            s\<lparr>trace := trace s @ concat (replicate (TABLE_LOAD_RETRIES - 1 - i) (load_retry io)) @
                         [Ioctl DM_TABLE_LOAD io False, PLog ERROR ''DM_TABLE_LOAD ioctl failed'']\<rparr>)"
  using assms
proof (induction "TABLE_LOAD_RETRIES - 1 - i" arbitrary: i s)
  case 0
  then have last: "i + 1 \<ge> TABLE_LOAD_RETRIES" and no: "\<not> table_load_ok w i" by auto
  with 0 show ?case
    by (simp add: table_load_loop.simps [of w io i s] emit_def)
next
  case (Suc n)
  then have lt: "i + 1 < TABLE_LOAD_RETRIES" and no: "\<not> table_load_ok w i"
    and n: "n = TABLE_LOAD_RETRIES - 1 - (i + 1)" by auto
  let ?s' = "emit (Usleep 500000) (emit (PLog INFO ''DM_TABLE_LOAD ioctl failed, retrying'')
               (emit (Ioctl DM_TABLE_LOAD io False) s))"
  have step: "table_load_loop w io i s = table_load_loop w io (i + 1) ?s'"
    using lt no by (simp add: table_load_loop.simps [of w io i s])
  have "table_load_loop w io (i + 1) ?s' =
          (Inl TableLoadFailed,
           ?s'\<lparr>trace := trace ?s' @ concat (replicate (TABLE_LOAD_RETRIES - 1 - (i + 1)) (load_retry io)) @
                         [Ioctl DM_TABLE_LOAD io False, PLog ERROR ''DM_TABLE_LOAD ioctl failed'']\<rparr>)"
    using Suc.hyps(1) [OF n lt] Suc.prems(2) by simp
  moreover have "TABLE_LOAD_RETRIES - 1 - i = Suc (TABLE_LOAD_RETRIES - 1 - (i + 1))" using lt by simp
  ultimately show ?case
    unfolding step by (simp add: emit_def load_retry_def)
qed

text \<open>
  C4: when the driver is opened, the mapping created, the status read and the load buffer
  built, \<^verbatim>\<open>create_crypto_blk_dev\<close> issues the load command at most
  \<^verbatim>\<open>TABLE_LOAD_RETRIES\<close> = 10 times, and every failed attempt but the last is followed by
  a sleep of 500000 microseconds. If attempt \<open>k + 1\<close> is the first to succeed, with
  \<open>k < 10\<close>, there are exactly \<open>k + 1\<close> load commands, then the resume command, and the
  result is that of the resume. If all ten attempts fail, there are exactly ten load
  commands, the result is \<open>TableLoadFailed\<close>, and no resume command is issued.
\<close>

theorem table_load_retries:
  assumes "open_ok w ''/dev/device-mapper''" and "dev_create_ok w"
    and "take DM_NAME_LEN dm_name \<notin> set (mappings s)" and "dev_status w = Some d"
    and "fst (dm_ioctl_init DM_CRYPT_BUF_SIZE dm_name s) = Some b0"
    and "fst (table_load_buffer dm_name nr_sec target_type crypt_params s) = Inr tb"
    and "r = create_crypto_blk_dev w dm_name nr_sec target_type crypt_params s"
    and "evs = events_since s (snd r)"
  shows "(k < TABLE_LOAD_RETRIES \<and> (\<forall>j<k. \<not> table_load_ok w j) \<and> table_load_ok w k \<longrightarrow>
            evs = [OpenDev ''/dev/device-mapper'', Ioctl DM_DEV_CREATE b0 True, Ioctl DM_DEV_STATUS b0 True] @
                  concat (replicate k (load_retry tb)) @
                  [Ioctl DM_TABLE_LOAD tb True, Ioctl DM_DEV_SUSPEND b0 (dev_suspend_ok w)] @
                  (if dev_suspend_ok w then [] else [PLog ERROR (''Cannot resume dm-crypt device '' @ dm_name)])
            \<and> length (filter is_table_load evs) = k + 1
            \<and> length (filter is_resume evs) = 1
            \<and> fst r = (if dev_suspend_ok w then Inr (''/dev/block/dm-'' @ to_string (unat (dm_minor d)))
                       else Inl ActivationFailed))
       \<and> ((\<forall>j<TABLE_LOAD_RETRIES. \<not> table_load_ok w j) \<longrightarrow>
            evs = [OpenDev ''/dev/device-mapper'', Ioctl DM_DEV_CREATE b0 True, Ioctl DM_DEV_STATUS b0 True] @
                  concat (replicate 9 (load_retry tb)) @
                  [Ioctl DM_TABLE_LOAD tb False, PLog ERROR ''DM_TABLE_LOAD ioctl failed'']
            \<and> length (filter is_table_load evs) = 10
            \<and> filter is_resume evs = []
            \<and> fst r = Inl TableLoadFailed)"
proof -
  let ?s1 = "s\<lparr>mappings := take DM_NAME_LEN dm_name # mappings s,
                trace := trace s @ [OpenDev ''/dev/device-mapper'', Ioctl DM_DEV_CREATE b0 True]\<rparr>"
  let ?s2 = "?s1\<lparr>trace := trace ?s1 @ [Ioctl DM_DEV_STATUS b0 True]\<rparr>"
  have i1: "fst (dm_ioctl_init DM_CRYPT_BUF_SIZE dm_name t) = Some b0" for t
    using dm_ioctl_init_Some [OF assms(5), of t] by simp
  have c: "crypto_blk_dev_create w dm_name s = (Inr (), ?s1)"
    by (rule crypto_blk_dev_create_ok [OF assms(1-3) assms(5)])
  have st: "crypto_blk_dev_status w dm_name ?s1 =
              (Inr (''/dev/block/dm-'' @ to_string (unat (dm_minor d))), ?s2)"
    by (rule crypto_blk_dev_status_ok [OF assms(4) i1])
  have tb: "table_load_buffer dm_name nr_sec target_type crypt_params ?s2 = (Inr tb, ?s2)"
    by (rule table_load_buffer_Inr [OF assms(6)])
  have r: "r = and_then (table_load_loop w tb 0 ?s2) (\<lambda>_ s4.
             and_then (crypto_blk_dev_resume w dm_name s4) (\<lambda>_ s5.
               (Inr (''/dev/block/dm-'' @ to_string (unat (dm_minor d))), s5)))"
    unfolding assms(7) create_crypto_blk_dev_def c and_then_Inr st tb ..
  have fl: "filter is_table_load (load_retry tb) = [Ioctl DM_TABLE_LOAD tb False]"
    and fr: "filter is_resume (load_retry tb) = []"
    by (simp_all add: load_retry_def is_table_load_def is_resume_def)
  show ?thesis
  proof (intro conjI impI)
    assume k: "k < TABLE_LOAD_RETRIES \<and> (\<forall>j<k. \<not> table_load_ok w j) \<and> table_load_ok w k"
    then have "table_load_loop w tb 0 ?s2 =
                 (Inr (), ?s2\<lparr>trace := trace ?s2 @ concat (replicate (k - 0) (load_retry tb)) @
                                  [Ioctl DM_TABLE_LOAD tb True]\<rparr>)"
      by (intro table_load_loop_success) auto
    then have r': "r = (if dev_suspend_ok w then Inr (''/dev/block/dm-'' @ to_string (unat (dm_minor d)))
                        else Inl ActivationFailed,
                        s\<lparr>mappings := take DM_NAME_LEN dm_name # mappings s,
                          trace := trace s @
                  [OpenDev ''/dev/device-mapper'', Ioctl DM_DEV_CREATE b0 True, Ioctl DM_DEV_STATUS b0 True] @
                  concat (replicate k (load_retry tb)) @
                  [Ioctl DM_TABLE_LOAD tb True, Ioctl DM_DEV_SUSPEND b0 (dev_suspend_ok w)] @
                  (if dev_suspend_ok w then [] else [PLog ERROR (''Cannot resume dm-crypt device '' @ dm_name)])\<rparr>)"
      unfolding r by (simp add: crypto_blk_dev_resume_eq [OF i1])
    show e: "evs = [OpenDev ''/dev/device-mapper'', Ioctl DM_DEV_CREATE b0 True, Ioctl DM_DEV_STATUS b0 True] @
                  concat (replicate k (load_retry tb)) @
                  [Ioctl DM_TABLE_LOAD tb True, Ioctl DM_DEV_SUSPEND b0 (dev_suspend_ok w)] @
                  (if dev_suspend_ok w then [] else [PLog ERROR (''Cannot resume dm-crypt device '' @ dm_name)])"
      unfolding assms(8) r' by (rule events_sinceI) simp
    show "length (filter is_table_load evs) = k + 1"
      unfolding e by (simp add: filter_concat_replicate fl length_concat_replicate is_table_load_def)
    show "length (filter is_resume evs) = 1"
      unfolding e by (simp add: filter_concat_replicate fr is_resume_def)
    show "fst r = (if dev_suspend_ok w then Inr (''/dev/block/dm-'' @ to_string (unat (dm_minor d)))
                       else Inl ActivationFailed)"
      unfolding r' by simp
  next
    assume a: "\<forall>j<TABLE_LOAD_RETRIES. \<not> table_load_ok w j"
    have "table_load_loop w tb 0 ?s2 =
           (Inl TableLoadFailed,
            ?s2\<lparr>trace := trace ?s2 @ concat (replicate (TABLE_LOAD_RETRIES - 1 - 0) (load_retry tb)) @
                         [Ioctl DM_TABLE_LOAD tb False, PLog ERROR ''DM_TABLE_LOAD ioctl failed'']\<rparr>)"
      using a by (intro table_load_loop_exhausted) (auto simp: TABLE_LOAD_RETRIES_def)
    then have r': "r = (Inl TableLoadFailed,
                        s\<lparr>mappings := take DM_NAME_LEN dm_name # mappings s,
                          trace := trace s @
                  [OpenDev ''/dev/device-mapper'', Ioctl DM_DEV_CREATE b0 True, Ioctl DM_DEV_STATUS b0 True] @
                  concat (replicate 9 (load_retry tb)) @
                  [Ioctl DM_TABLE_LOAD tb False, PLog ERROR ''DM_TABLE_LOAD ioctl failed'']\<rparr>)"
      unfolding r by (simp add: TABLE_LOAD_RETRIES_def)
    show e: "evs = [OpenDev ''/dev/device-mapper'', Ioctl DM_DEV_CREATE b0 True, Ioctl DM_DEV_STATUS b0 True] @
                  concat (replicate 9 (load_retry tb)) @
                  [Ioctl DM_TABLE_LOAD tb False, PLog ERROR ''DM_TABLE_LOAD ioctl failed'']"
      unfolding assms(8) r' by (rule events_sinceI) simp
    show "length (filter is_table_load evs) = 10"
      unfolding e by (simp add: filter_concat_replicate fl length_concat_replicate is_table_load_def)
    show "filter is_resume evs = []"
      unfolding e by (simp add: filter_concat_replicate fr is_resume_def)
    show "fst r = Inl TableLoadFailed"
      unfolding r' by simp
  qed
qed

theorem table_load_retries_witness:
  "fst (create_crypto_blk_dev (w0\<lparr>table_load_ok := (\<lambda>i. 9 \<le> i)\<rparr>) kDmNameUserdata 1000000
          DEFAULT_KEY_TARGET_TYPE params0 s0) = Inr ''/dev/block/dm-3''
   \<and> length (filter is_table_load (events_since s0 (snd
        (create_crypto_blk_dev (w0\<lparr>table_load_ok := (\<lambda>i. 9 \<le> i)\<rparr>) kDmNameUserdata 1000000
          DEFAULT_KEY_TARGET_TYPE params0 s0)))) = 10
   \<and> fst (create_crypto_blk_dev (w0\<lparr>table_load_ok := (\<lambda>i. False)\<rparr>) kDmNameUserdata 1000000
          DEFAULT_KEY_TARGET_TYPE params0 s0) = Inl TableLoadFailed
   \<and> length (filter is_table_load (events_since s0 (snd
        (create_crypto_blk_dev (w0\<lparr>table_load_ok := (\<lambda>i. False)\<rparr>) kDmNameUserdata 1000000
          DEFAULT_KEY_TARGET_TYPE params0 s0)))) = 10
   \<and> filter is_resume (events_since s0 (snd
        (create_crypto_blk_dev (w0\<lparr>table_load_ok := (\<lambda>i. False)\<rparr>) kDmNameUserdata 1000000
          DEFAULT_KEY_TARGET_TYPE params0 s0))) = []"
proof -
  obtain tb where tb: "fst (table_load_buffer kDmNameUserdata 1000000 DEFAULT_KEY_TARGET_TYPE params0 s0) = Inr tb"
    using table_load_buffer_example by blast
  obtain b0 where b0: "fst (dm_ioctl_init DM_CRYPT_BUF_SIZE kDmNameUserdata s0) = Some b0"
    by (simp add: dm_ioctl_init_def DM_CRYPT_BUF_SIZE_def sizeof_dm_ioctl_def)
  have fresh: "take DM_NAME_LEN kDmNameUserdata \<notin> set (mappings s0)"
    by (simp add: s0_def)
  let ?wC = "w0\<lparr>table_load_ok := (\<lambda>i. 9 \<le> i)\<rparr>" and ?wD = "w0\<lparr>table_load_ok := (\<lambda>i. False)\<rparr>"
  have C: "open_ok ?wC ''/dev/device-mapper''" "dev_create_ok ?wC" "dev_status ?wC = Some 0xFD03"
    "dev_suspend_ok ?wC"
    "(9::nat) < TABLE_LOAD_RETRIES \<and> (\<forall>j<9. \<not> table_load_ok ?wC j) \<and> table_load_ok ?wC 9"
    by (simp_all add: w0_def TABLE_LOAD_RETRIES_def)
  have D: "open_ok ?wD ''/dev/device-mapper''" "dev_create_ok ?wD" "dev_status ?wD = Some 0xFD03"
    "\<forall>j<TABLE_LOAD_RETRIES. \<not> table_load_ok ?wD j"
    by (simp_all add: w0_def)
  note tC = table_load_retries [OF C(1,2) fresh C(3) b0 tb refl refl, of 9, THEN conjunct1, THEN mp, OF C(5)]
  note tD = table_load_retries [OF D(1,2) fresh D(3) b0 tb refl refl, of 9, THEN conjunct2, THEN mp, OF D(4)]
  note rC = tC [THEN conjunct2, THEN conjunct2, THEN conjunct2]
    and nC = tC [THEN conjunct2, THEN conjunct1]
    and nD = tD [THEN conjunct2, THEN conjunct1]
    and aD = tD [THEN conjunct2, THEN conjunct2, THEN conjunct1]
    and rD = tD [THEN conjunct2, THEN conjunct2, THEN conjunct2]
  have "fst (create_crypto_blk_dev ?wC kDmNameUserdata 1000000 DEFAULT_KEY_TARGET_TYPE params0 s0)
          = Inr ''/dev/block/dm-3''"
    using rC C(4) by (simp only: if_True dm_minor_example append.simps)
  with nC nD aD rD show ?thesis
    by (intro conjI) simp_all
qed

subsection \<open>What each function changes\<close>

lemma mount_via_fs_mgr_adds:
  "adds (\<lambda>e. silent e \<and> no_ioctl e) s (snd (mount_via_fs_mgr w mp dev s))"
  by (simp add: mount_via_fs_mgr_def Let_def adds_emit silent_def no_ioctl_def)

lemma mount_via_fs_mgr_frame [simp]:
  "mappings (snd (mount_via_fs_mgr w mp dev s)) = mappings s"
  "props (snd (mount_via_fs_mgr w mp dev s)) = props s"
  by (simp_all add: mount_via_fs_mgr_def Let_def)

lemma mount_via_fs_mgr_logs_failure:
  assumes "mount_via_fs_mgr w mp dev s = (False, s')"
  shows "is_error_log (last (trace s'))"
  using assms by (auto simp: mount_via_fs_mgr_def Let_def is_error_log_def split: if_splits)

lemma read_key_adds: "adds silent s (snd (read_key w c s))"
  by (simp add: read_key_def Let_def adds_emit silent_def split: option.split)

lemma read_key_frame [simp]:
  "mappings (snd (read_key w c s)) = mappings s" "props (snd (read_key w c s)) = props s"
  by (simp_all add: read_key_def Let_def split: option.split)

lemma get_data_rec_adds: "adds silent s (snd (get_data_rec w s))"
  by (simp add: get_data_rec_def adds_emit silent_def split: option.split)

lemma get_data_rec_frame [simp]:
  "mappings (snd (get_data_rec w s)) = mappings s" "props (snd (get_data_rec w s)) = props s"
  by (simp_all add: get_data_rec_def split: option.split)

lemma get_number_of_sectors_adds: "adds silent s (snd (get_number_of_sectors w b s))"
  by (simp add: get_number_of_sectors_def Let_def adds_emit silent_def)

lemma get_number_of_sectors_frame [simp]:
  "mappings (snd (get_number_of_sectors w b s)) = mappings s"
  "props (snd (get_number_of_sectors w b s)) = props s"
  by (simp_all add: get_number_of_sectors_def Let_def)

lemma default_key_params_adds: "adds silent s (snd (default_key_params w b k s))"
  by (simp add: default_key_params_def Let_def adds_emit silent_def split: option.split)

lemma default_key_params_frame [simp]:
  "mappings (snd (default_key_params w b k s)) = mappings s"
  "props (snd (default_key_params w b k s)) = props s"
  by (simp_all add: default_key_params_def Let_def split: option.split)

lemma table_load_loop_adds: "adds silent s (snd (table_load_loop w io i s))"
proof (induction w io i s rule: table_load_loop.induct)
  case (1 w io i s)
  show ?case
  proof (cases "\<not> table_load_ok w i \<and> \<not> TABLE_LOAD_RETRIES \<le> i + 1")
    case True
    have "adds silent s (emit (Usleep 500000) (emit (PLog INFO ''DM_TABLE_LOAD ioctl failed, retrying'')
             (emit (Ioctl DM_TABLE_LOAD io False) s)))"
      by (simp add: adds_emit silent_def)
    moreover have "adds silent (emit (Usleep 500000) (emit (PLog INFO ''DM_TABLE_LOAD ioctl failed, retrying'')
             (emit (Ioctl DM_TABLE_LOAD io False) s))) (snd (table_load_loop w io i s))"
      using True "1.IH" by (simp add: table_load_loop.simps [of w io i s] ioctl_def Let_def)
    ultimately show ?thesis by (rule adds_trans)
  next
    case False
    then show ?thesis
      by (auto simp: table_load_loop.simps [of w io i s] ioctl_def Let_def adds_emit silent_def)
  qed
qed

lemma table_load_loop_frame [simp]:
  "mappings (snd (table_load_loop w io i s)) = mappings s \<and> props (snd (table_load_loop w io i s)) = props s"
proof (induction w io i s rule: table_load_loop.induct)
  case (1 w io i s)
  show ?case
  proof (cases "\<not> table_load_ok w i \<and> \<not> TABLE_LOAD_RETRIES \<le> i + 1")
    case True
    then show ?thesis
      using "1.IH" by (simp add: table_load_loop.simps [of w io i s] ioctl_def Let_def)
  next
    case False
    then show ?thesis
      by (auto simp: table_load_loop.simps [of w io i s] ioctl_def Let_def)
  qed
qed

lemma table_load_loop_result:
  "fst (table_load_loop w io i s) = Inr () \<or> fst (table_load_loop w io i s) = Inl TableLoadFailed"
proof (induction w io i s rule: table_load_loop.induct)
  case (1 w io i s)
  show ?case
  proof (cases "\<not> table_load_ok w i \<and> \<not> TABLE_LOAD_RETRIES \<le> i + 1")
    case True
    then show ?thesis
      using "1.IH" by (simp add: table_load_loop.simps [of w io i s] ioctl_def Let_def)
  next
    case False
    then show ?thesis
      by (auto simp: table_load_loop.simps [of w io i s] ioctl_def Let_def)
  qed
qed

lemma crypto_blk_dev_create_D:
  assumes "crypto_blk_dev_create w n s = (r, s')"
  shows "props s' = props s" and "adds silent s s'"
    and "r = Inr () \<or> r = Inl DriverError \<or> r = Inl DeviceMapperOpenError"
    and "mappings s' = (if r = Inr () then take DM_NAME_LEN n # mappings s else mappings s)"
  using assms
  by (auto simp: crypto_blk_dev_create_def dm_ioctl_init_def ioctl_def Let_def adds_emit silent_def
      split: if_splits)

lemma crypto_blk_dev_status_D:
  assumes "crypto_blk_dev_status w n s = (r, s')"
  shows "props s' = props s" and "adds silent s s'" and "mappings s' = mappings s"
    and "r \<noteq> Inl DriverError" and "r \<noteq> Inl DeviceMapperOpenError"
  using assms
  by (auto simp: crypto_blk_dev_status_def dm_ioctl_init_def ioctl_def Let_def adds_emit silent_def
      split: if_splits option.splits)

lemma table_load_buffer_D:
  assumes "table_load_buffer n nr tt p s = (r, s')"
  shows "props s' = props s" and "adds silent s s'" and "mappings s' = mappings s"
    and "r \<noteq> Inl DriverError" and "r \<noteq> Inl DeviceMapperOpenError"
  using assms
  by (auto simp: table_load_buffer_def dm_ioctl_init_def Let_def adds_emit silent_def
      split: if_splits)

lemma table_load_loop_D:
  assumes "table_load_loop w io i s = (r, s')"
  shows "props s' = props s" and "adds silent s s'" and "mappings s' = mappings s"
    and "r \<noteq> Inl DriverError" and "r \<noteq> Inl DeviceMapperOpenError"
  using assms table_load_loop_frame [of w io i s] table_load_loop_adds [of s w io i]
    table_load_loop_result [of w io i s]
  by auto

lemma crypto_blk_dev_resume_D:
  assumes "crypto_blk_dev_resume w n s = (r, s')"
  shows "props s' = props s" and "adds silent s s'" and "mappings s' = mappings s"
    and "r \<noteq> Inl DriverError" and "r \<noteq> Inl DeviceMapperOpenError"
  using assms
  by (auto simp: crypto_blk_dev_resume_def dm_ioctl_init_def ioctl_def Let_def adds_emit silent_def
      split: if_splits)

lemma create_crypto_blk_dev_D:
  assumes "create_crypto_blk_dev w n nr tt p s = (r, s')"
  shows "props s' = props s" and "adds silent s s'"
    and "mappings s' = (if r = Inl DriverError \<or> r = Inl DeviceMapperOpenError then mappings s
                        else take DM_NAME_LEN n # mappings s)"
proof -
  have step: "later_step s (and_then m f)"
    if "\<And>r s1. m = (r, s1) \<Longrightarrow> later_step s (r, s1)"
      and "\<And>x s1. m = (Inr x, s1) \<Longrightarrow> later_step s1 (f x s1)"
    for s and m :: "(error + 'b) \<times> state" and f :: "'b \<Rightarrow> state \<Rightarrow> (error + 'c) \<times> state"
  proof (rule and_then_rule)
    fix e s1 assume "m = (Inl e, s1)"
    from that(1) [OF this] show "later_step s (Inl e, s1)" by (simp add: later_step_def)
  next
    fix x s1 assume m: "m = (Inr x, s1)"
    from that(1) [OF m] that(2) [OF m] show "later_step s (f x s1)"
      by (auto simp: later_step_def intro: adds_trans)
  qed
  have rest: "later_step s1 (and_then (crypto_blk_dev_status w n s1) (\<lambda>crypto_blkdev s2.
     and_then (table_load_buffer n nr tt p s2) (\<lambda>io s3.
     and_then (table_load_loop w io 0 s3) (\<lambda>_ s4.
     and_then (crypto_blk_dev_resume w n s4) (\<lambda>_ s5.
       (Inr crypto_blkdev, s5))))))" for s1
    by (intro step)
      (auto simp: later_step_def dest: crypto_blk_dev_status_D table_load_buffer_D table_load_loop_D
        crypto_blk_dev_resume_D)
  obtain r1 s1 where c: "crypto_blk_dev_create w n s = (r1, s1)" by fastforce
  note cD = crypto_blk_dev_create_D [OF c]
  show "props s' = props s" and "adds silent s s'"
    and "mappings s' = (if r = Inl DriverError \<or> r = Inl DeviceMapperOpenError then mappings s
                        else take DM_NAME_LEN n # mappings s)"
    using assms cD rest [of s1] unfolding create_crypto_blk_dev_def c
    by (cases r1; auto simp: later_step_def intro: adds_trans)+
qed

lemma quiet_from_read_key: "quiet_from s (snd (read_key w c s))"
  by (simp add: quiet_from_def read_key_adds)

lemma quiet_from_get_data_rec: "quiet_from s (snd (get_data_rec w s))"
  by (simp add: quiet_from_def get_data_rec_adds)

lemma quiet_from_get_number_of_sectors: "quiet_from s (snd (get_number_of_sectors w b s))"
  by (simp add: quiet_from_def get_number_of_sectors_adds)

lemma quiet_from_default_key_params: "quiet_from s (snd (default_key_params w b k s))"
  by (simp add: quiet_from_def default_key_params_adds)

lemma quiet_from_create_crypto_blk_dev: "quiet_from s (snd (create_crypto_blk_dev w n nr tt p s))"
  using create_crypto_blk_dev_D(1,2) [of w n nr tt p s] by (simp add: quiet_from_def prod_eq_iff)

lemma quiet_and_then:
  assumes "quiet_from s t" and "quiet_from t (snd m)"
    and "\<And>x s1. m = (Inr x, s1) \<Longrightarrow> quiet_from s s1 \<Longrightarrow> R (f x s1)"
    and "\<And>e s1. quiet_from s s1 \<Longrightarrow> R (Inl e, s1)"
  shows "R (and_then m f)"
proof (rule and_then_rule)
  fix e s1 assume "m = (Inl e, s1)"
  with assms(1,2) have "quiet_from s s1" by (auto intro: quiet_from_trans)
  then show "R (Inl e, s1)" by (rule assms(4))
next
  fix x s1 assume m: "m = (Inr x, s1)"
  with assms(1,2) have "quiet_from s s1" by (auto intro: quiet_from_trans)
  with m show "R (f x s1)" by (rule assms(3))
qed

subsection \<open>A failed provisioning attempt\<close>

text \<open>
  C10: when \<^verbatim>\<open>create_crypto_blk_dev\<close> fails with \<open>TableLoadFailed\<close> or \<open>ActivationFailed\<close>,
  the create command had succeeded, and the mapping it registered is still registered
  when the function returns: the source has no remove command. A next call for the same
  name, with any environment that lets it open the driver, gets no further than the
  create command, which the driver rejects because the name is present.
\<close>

theorem failed_provisioning_keeps_mapping:
  assumes "create_crypto_blk_dev w dm_name nr_sec target_type crypt_params s = (Inl e, s')"
    and "e = TableLoadFailed \<or> e = ActivationFailed"
    and "fst (dm_ioctl_init DM_CRYPT_BUF_SIZE dm_name s) = Some b0"
  shows "mappings s' = take DM_NAME_LEN dm_name # mappings s
       \<and> (open_ok w' ''/dev/device-mapper'' \<longrightarrow>
            create_crypto_blk_dev w' dm_name nr_sec' target_type' crypt_params' s' =
              (Inl DriverError,
               s'\<lparr>trace := trace s' @ [OpenDev ''/dev/device-mapper'', Ioctl DM_DEV_CREATE b0 False,
                                       PLog ERROR (''Cannot create dm-crypt device '' @ dm_name)]\<rparr>))"
proof -
  have m: "mappings s' = take DM_NAME_LEN dm_name # mappings s"
    using create_crypto_blk_dev_D(3) [OF assms(1)] assms(2) by auto
  have b: "fst (dm_ioctl_init DM_CRYPT_BUF_SIZE dm_name s') = Some b0"
    using dm_ioctl_init_Some [OF assms(3), of s'] by simp
  show ?thesis
    using m by (auto simp: create_crypto_blk_dev_def crypto_blk_dev_create_present [OF _ _ b])
qed

theorem failed_provisioning_keeps_mapping_witness:
  "fst (create_crypto_blk_dev (w0\<lparr>dev_suspend_ok := False\<rparr>) kDmNameUserdata 1000000
          DEFAULT_KEY_TARGET_TYPE params0 s0) = Inl ActivationFailed
   \<and> mappings (snd (create_crypto_blk_dev (w0\<lparr>dev_suspend_ok := False\<rparr>) kDmNameUserdata 1000000
          DEFAULT_KEY_TARGET_TYPE params0 s0)) = [''userdata'']
   \<and> fst (create_crypto_blk_dev w0 kDmNameUserdata 1000000 DEFAULT_KEY_TARGET_TYPE params0
            (snd (create_crypto_blk_dev (w0\<lparr>dev_suspend_ok := False\<rparr>) kDmNameUserdata 1000000
                    DEFAULT_KEY_TARGET_TYPE params0 s0))) = Inl DriverError"
proof -
  let ?r = "create_crypto_blk_dev (w0\<lparr>dev_suspend_ok := False\<rparr>) kDmNameUserdata 1000000
              DEFAULT_KEY_TARGET_TYPE params0 s0"
  have a: "?r = (Inl ActivationFailed, snd ?r)"
    using resume_fails_example by (simp add: prod_eq_iff)
  obtain b0 where b0: "fst (dm_ioctl_init DM_CRYPT_BUF_SIZE kDmNameUserdata s0) = Some b0"
    by (simp add: dm_ioctl_init_def sizes)
  have o: "open_ok w0 ''/dev/device-mapper''" by (simp add: w0_def)
  note t = failed_provisioning_keeps_mapping [OF a _ b0, of w0 1000000 DEFAULT_KEY_TARGET_TYPE params0]
  have m: "mappings (snd ?r) = [''userdata'']"
    using t [THEN conjunct1] by (simp add: sizes s0_def)
  have "fst (create_crypto_blk_dev w0 kDmNameUserdata 1000000 DEFAULT_KEY_TARGET_TYPE params0 (snd ?r))
          = Inl DriverError"
    using t [THEN conjunct2, THEN mp, OF _ o] by simp
  with resume_fails_example m show ?thesis by (intro conjI)
qed

subsection \<open>Enabling encryption\<close>

text \<open>
  C7: when the property \<^verbatim>\<open>ro.crypto.state\<close> holds a non-empty value,
  \<^verbatim>\<open>e4crypt_enable_crypto\<close> fails with \<open>AlreadyEncryptedOrUnexpectedState\<close> after two
  log lines and nothing else: no key is retrieved, no ioctl is issued, and the mappings
  and the properties are as they were.
\<close>

theorem enable_crypto_already_encrypted:
  assumes "props s ''ro.crypto.state'' = Some v" and "v \<noteq> []"
  shows "e4crypt_enable_crypto w s =
           (Inl AlreadyEncryptedOrUnexpectedState,
            s\<lparr>trace := trace s @ [Log DEBUG ''e4crypt_enable_crypto'',
                 Log DEBUG (''e4crypt_enable_crypto got unexpected starting state: '' @ v)]\<rparr>)"
  using assms by (simp add: e4crypt_enable_crypto_def property_get_def emit_def Let_def)

theorem enable_crypto_already_encrypted_witness:
  "e4crypt_enable_crypto w0 (s0\<lparr>props := [''ro.crypto.state'' \<mapsto> ''encrypted'']\<rparr>) =
     (Inl AlreadyEncryptedOrUnexpectedState,
      \<lparr>mappings = [], props = [''ro.crypto.state'' \<mapsto> ''encrypted''],
       trace = [Log DEBUG ''e4crypt_enable_crypto'',
                Log DEBUG ''e4crypt_enable_crypto got unexpected starting state: encrypted'']\<rparr>)"
  using enable_crypto_already_encrypted
          [of "s0\<lparr>props := [''ro.crypto.state'' \<mapsto> ''encrypted'']\<rparr>" "''encrypted''" w0]
  by (simp add: s0_def)

text \<open>The three outcomes of the transform.\<close>

lemma enable_inplace_failed:
  assumes "cryptfs_enable_inplace w dev (blk_device data_rec) n = (rc, d)" and "rc \<noteq> 0"
  shows "enable_inplace w data_rec n dev s =
           (Inl (TransformFailed rc),
            s\<lparr>trace := trace s @
                 [Log INFO (''Beginning inplace encryption, nr_sec: '' @ to_string (unat n)),
                  CryptfsEnableInplace dev (blk_device data_rec) n rc d,
                  Log ERROR (''Inplace crypto failed with code: '' @ int_to_string rc)]\<rparr>)"
  using assms by (simp add: enable_inplace_def Let_def emit_def)

lemma enable_inplace_partial:
  assumes "cryptfs_enable_inplace w dev (blk_device data_rec) n = (0, d)" and "d \<noteq> n"
  shows "enable_inplace w data_rec n dev s =
           (Inl PartialTransform,
            s\<lparr>trace := trace s @
                 [Log INFO (''Beginning inplace encryption, nr_sec: '' @ to_string (unat n)),
                  CryptfsEnableInplace dev (blk_device data_rec) n 0 d,
                  Log ERROR (''Inplace crypto only got up to sector: '' @ int_to_string (sint d))]\<rparr>)"
  using assms by (simp add: enable_inplace_def Let_def emit_def)

lemma enable_inplace_complete:
  assumes "cryptfs_enable_inplace w dev (blk_device data_rec) n = (0, n)"
  shows "\<exists>evs. list_all (\<lambda>e. silent e \<and> no_ioctl e) evs \<and>
           enable_inplace w data_rec n dev s =
           (Inr (),
            s\<lparr>props := (props s)(''ro.crypto.state'' \<mapsto> ''encrypted'', ''ro.crypto.type'' \<mapsto> ''file'',
                                    ''vold.decrypt'' \<mapsto> ''trigger_reset_main''),
               trace := trace s @
                 [Log INFO (''Beginning inplace encryption, nr_sec: '' @ to_string (unat n)),
                  CryptfsEnableInplace dev (blk_device data_rec) n 0 n,
                  Log INFO ''Inplace encryption complete'',
                  PropertySet ''ro.crypto.state'' ''encrypted'',
                  PropertySet ''ro.crypto.type'' ''file''] @ evs @
                 [PropertySet ''vold.decrypt'' ''trigger_reset_main'', ThreadDetach]\<rparr>)"
proof -
  define s5 where "s5 = property_set ''ro.crypto.type'' ''file''
            (property_set ''ro.crypto.state'' ''encrypted''
              (emit (Log INFO ''Inplace encryption complete'')
                (emit (CryptfsEnableInplace dev (blk_device data_rec) n 0 n)
                  (emit (Log INFO (''Beginning inplace encryption, nr_sec: '' @ to_string (unat n))) s))))"
  define s6 where "s6 = snd (mount_via_fs_mgr w (mount_point data_rec) dev s5)"
  have s5: "trace s5 = trace s @
                 [Log INFO (''Beginning inplace encryption, nr_sec: '' @ to_string (unat n)),
                  CryptfsEnableInplace dev (blk_device data_rec) n 0 n,
                  Log INFO ''Inplace encryption complete'',
                  PropertySet ''ro.crypto.state'' ''encrypted'',
                  PropertySet ''ro.crypto.type'' ''file'']"
    "props s5 = (props s)(''ro.crypto.state'' \<mapsto> ''encrypted'', ''ro.crypto.type'' \<mapsto> ''file'')"
    "mappings s5 = mappings s"
    by (simp_all add: s5_def)
  obtain evs where evs: "trace s6 = trace s5 @ evs" "list_all (\<lambda>e. silent e \<and> no_ioctl e) evs"
    using mount_via_fs_mgr_adds [of s5 w "mount_point data_rec" dev] by (auto simp: adds_iff s6_def)
  have s6: "props s6 = props s5" "mappings s6 = mappings s5"
    by (simp_all add: s6_def)
  have "enable_inplace w data_rec n dev s =
          (Inr (), emit ThreadDetach (property_set ''vold.decrypt'' ''trigger_reset_main'' s6))"
    using assms by (simp add: enable_inplace_def Let_def s5_def s6_def)
  moreover have "emit ThreadDetach (property_set ''vold.decrypt'' ''trigger_reset_main'' s6) =
     s\<lparr>props := (props s)(''ro.crypto.state'' \<mapsto> ''encrypted'', ''ro.crypto.type'' \<mapsto> ''file'',
                                    ''vold.decrypt'' \<mapsto> ''trigger_reset_main''),
               trace := trace s @
                 [Log INFO (''Beginning inplace encryption, nr_sec: '' @ to_string (unat n)),
                  CryptfsEnableInplace dev (blk_device data_rec) n 0 n,
                  Log INFO ''Inplace encryption complete'',
                  PropertySet ''ro.crypto.state'' ''encrypted'',
                  PropertySet ''ro.crypto.type'' ''file''] @ evs @
                 [PropertySet ''vold.decrypt'' ''trigger_reset_main'', ThreadDetach]\<rparr>"
    by (rule state.equality) (simp_all add: evs(1) s5 s6)
  ultimately show ?thesis using evs(2) by auto
qed

text \<open>A call of \<^verbatim>\<open>e4crypt_enable_crypto\<close> either fails before the transform, having
  added silent events only, or reaches the transform after silent events only.\<close>

lemma enable_crypto_cases:
  assumes "e4crypt_enable_crypto w s = (r, s')"
  shows "(quiet_from s s' \<and> (\<exists>e. r = Inl e)) \<or>
         (\<exists>s5 data_rec n dev. quiet_from s s5 \<and> enable_inplace w data_rec n dev s5 = (r, s'))"
proof -
  define R where "R = (\<lambda>m :: (error + unit) \<times> state.
     (quiet_from s (snd m) \<and> (\<exists>e. fst m = Inl e)) \<or>
     (\<exists>s5 data_rec n dev. quiet_from s s5 \<and> enable_inplace w data_rec n dev s5 = m))"
  have fail: "R (Inl e, s1)" if "quiet_from s s1" for e s1
    using that by (simp add: R_def)
  let ?s0 = "emit (Log DEBUG ''e4crypt_enable_crypto'') s"
  have q0: "quiet_from s ?s0"
    by (simp add: quiet_from_emit silent_def)
  have "R (e4crypt_enable_crypto w s)"
  proof (cases "property_get ?s0 ''ro.crypto.state'' [] \<noteq> []")
    case True
    then show ?thesis
      using q0 by (simp add: e4crypt_enable_crypto_def Let_def R_def quiet_from_emit silent_def)
  next
    case False
    have "R (and_then (read_key w True ?s0) (\<lambda>key_ref s1.
            and_then (get_data_rec w s1) (\<lambda>data_rec s2.
            and_then (get_number_of_sectors w (blk_device data_rec) s2) (\<lambda>nr_sec s3.
            (case default_key_params w (blk_device data_rec) key_ref s3 of
               (crypt_params, s4) \<Rightarrow>
            and_then (create_crypto_blk_dev w kDmNameUserdata nr_sec DEFAULT_KEY_TARGET_TYPE crypt_params s4)
              (enable_inplace w data_rec nr_sec))))))"
    proof (rule quiet_and_then [where R = R, OF q0 quiet_from_read_key _ fail])
      fix key_ref s1 assume q1: "quiet_from s s1"
      show "R (and_then (get_data_rec w s1) (\<lambda>data_rec s2.
            and_then (get_number_of_sectors w (blk_device data_rec) s2) (\<lambda>nr_sec s3.
            (case default_key_params w (blk_device data_rec) key_ref s3 of
               (crypt_params, s4) \<Rightarrow>
            and_then (create_crypto_blk_dev w kDmNameUserdata nr_sec DEFAULT_KEY_TARGET_TYPE crypt_params s4)
              (enable_inplace w data_rec nr_sec)))))"
      proof (rule quiet_and_then [where R = R, OF q1 quiet_from_get_data_rec _ fail])
        fix data_rec s2 assume q2: "quiet_from s s2"
        show "R (and_then (get_number_of_sectors w (blk_device data_rec) s2) (\<lambda>nr_sec s3.
            (case default_key_params w (blk_device data_rec) key_ref s3 of
               (crypt_params, s4) \<Rightarrow>
            and_then (create_crypto_blk_dev w kDmNameUserdata nr_sec DEFAULT_KEY_TARGET_TYPE crypt_params s4)
              (enable_inplace w data_rec nr_sec))))"
        proof (rule quiet_and_then [where R = R, OF q2 quiet_from_get_number_of_sectors _ fail])
          fix nr_sec s3 assume q3: "quiet_from s s3"
          obtain crypt_params s4 where p: "default_key_params w (blk_device data_rec) key_ref s3 = (crypt_params, s4)"
            by fastforce
          have q4: "quiet_from s s4"
            using quiet_from_default_key_params [of s3 w "blk_device data_rec" key_ref] q3 p
            by (auto intro: quiet_from_trans)
          have "R (and_then (create_crypto_blk_dev w kDmNameUserdata nr_sec DEFAULT_KEY_TARGET_TYPE crypt_params s4)
              (enable_inplace w data_rec nr_sec))"
          proof (rule quiet_and_then [where R = R, OF q4 quiet_from_create_crypto_blk_dev _ fail])
            fix dev s5 assume "quiet_from s s5"
            then show "R (enable_inplace w data_rec nr_sec dev s5)"
              unfolding R_def by blast
          qed
          then show "R (case default_key_params w (blk_device data_rec) key_ref s3 of
               (crypt_params, s4) \<Rightarrow>
            and_then (create_crypto_blk_dev w kDmNameUserdata nr_sec DEFAULT_KEY_TARGET_TYPE crypt_params s4)
              (enable_inplace w data_rec nr_sec))"
            by (simp add: p)
        qed
      qed
    qed
    then show ?thesis
      using False by (simp add: e4crypt_enable_crypto_def Let_def)
  qed
  then show ?thesis
    by (simp add: R_def assms)
qed

lemma partial_run:
  "fst (e4crypt_enable_crypto w_partial s0) = Inl PartialTransform"
  "CryptfsEnableInplace ''/dev/block/dm-3'' ''/dev/block/sda'' 1000000 0 500000
     \<in> set (events_since s0 (snd (e4crypt_enable_crypto w_partial s0)))"
  by (simp_all add: run_steps example_values w_partial_def events_since_def Let_def)

lemma complete_run:
  "props (snd (e4crypt_enable_crypto w0 s0)) ''ro.crypto.state'' = Some ''encrypted''"
  "props s0 ''ro.crypto.state'' = None"
  by (simp_all add: run_steps example_values Let_def)

text \<open>
  C3: in every call of \<^verbatim>\<open>e4crypt_enable_crypto\<close>, if \<^verbatim>\<open>ro.crypto.state\<close> is set or
  changes, then it is set to \<^verbatim>\<open>encrypted\<close>, the call succeeds, and the transform
  returned 0 with \<^verbatim>\<open>size_already_done\<close> equal to the sector count it was given. If the
  transform returns 0 with another \<^verbatim>\<open>size_already_done\<close>, the call fails with
  \<open>PartialTransform\<close> (with \<open>TransformFailed\<close> if the return code is not 0), no property
  is set, so the flag is as it was, and no thread for the restart is started.
\<close>

theorem enable_crypto_state_flag:
  assumes "e4crypt_enable_crypto w s = (r, s')" and "evs = events_since s s'"
  shows "(PropertySet ''ro.crypto.state'' v \<in> set evs \<or>
          props s' ''ro.crypto.state'' \<noteq> props s ''ro.crypto.state'' \<longrightarrow>
            props s' ''ro.crypto.state'' = Some ''encrypted'' \<and> r = Inr () \<and>
            (\<exists>dev b n. CryptfsEnableInplace dev b n 0 n \<in> set evs))
       \<and> (CryptfsEnableInplace dev b n rc d \<in> set evs \<and> (rc \<noteq> 0 \<or> d \<noteq> n) \<longrightarrow>
            r = Inl (if rc \<noteq> 0 then TransformFailed rc else PartialTransform) \<and>
            props s' = props s \<and> (\<forall>k x. PropertySet k x \<notin> set evs) \<and> ThreadDetach \<notin> set evs)"
proof -
  from enable_crypto_cases [OF assms(1)]
  consider (quiet) "quiet_from s s'"
    | (transform) s5 data_rec n0 dev0 where "quiet_from s s5"
        "enable_inplace w data_rec n0 dev0 s5 = (r, s')"
    by blast
  then show ?thesis
  proof cases
    case quiet
    from quiet_fromD [OF this] obtain evs0
      where s': "props s' = props s" "trace s' = trace s @ evs0"
        and evs0: "list_all (\<lambda>e. silent e \<and> True) evs0"
      by blast
    note no0 = silent_events [OF evs0]
    from s' show ?thesis
      by (auto simp: assms(2) events_since_def no0)
  next
    case transform
    from quiet_fromD [OF transform(1)] obtain evs5
      where s5: "props s5 = props s" "trace s5 = trace s @ evs5"
        and evs5: "list_all (\<lambda>e. silent e \<and> True) evs5"
      by blast
    note no5 = silent_events [OF evs5]
    obtain rc0 d0 where t: "cryptfs_enable_inplace w dev0 (blk_device data_rec) n0 = (rc0, d0)"
      by fastforce
    consider (failed) "rc0 \<noteq> 0" | (partial) "rc0 = 0" "d0 \<noteq> n0" | (complete) "rc0 = 0" "d0 = n0"
      by blast
    then show ?thesis
    proof cases
      case failed
      from enable_inplace_failed [OF t failed, of s5] transform(2) s5 failed show ?thesis
        by (auto simp: assms(2) events_since_def no5)
    next
      case partial
      from enable_inplace_partial [OF t [unfolded partial(1)] partial(2), of s5] transform(2) s5 partial
      show ?thesis
        by (auto simp: assms(2) events_since_def no5)
    next
      case complete
      from enable_inplace_complete [OF t [unfolded complete], of s5] obtain evsM
        where evsM: "list_all (\<lambda>e. silent e \<and> no_ioctl e) evsM"
          and run: "enable_inplace w data_rec n0 dev0 s5 =
           (Inr (),
            s5\<lparr>props := (props s5)(''ro.crypto.state'' \<mapsto> ''encrypted'', ''ro.crypto.type'' \<mapsto> ''file'',
                                    ''vold.decrypt'' \<mapsto> ''trigger_reset_main''),
               trace := trace s5 @
                 [Log INFO (''Beginning inplace encryption, nr_sec: '' @ to_string (unat n0)),
                  CryptfsEnableInplace dev0 (blk_device data_rec) n0 0 n0,
                  Log INFO ''Inplace encryption complete'',
                  PropertySet ''ro.crypto.state'' ''encrypted'',
                  PropertySet ''ro.crypto.type'' ''file''] @ evsM @
                 [PropertySet ''vold.decrypt'' ''trigger_reset_main'', ThreadDetach]\<rparr>)"
        by blast
      note noM = silent_events [OF evsM]
      from run transform(2) s5 show ?thesis
        by (auto simp: assms(2) events_since_def no5 noM)
    qed
  qed
qed

theorem enable_crypto_state_flag_witness:
  "fst (e4crypt_enable_crypto w_partial s0) = Inl PartialTransform
   \<and> props (snd (e4crypt_enable_crypto w_partial s0)) = props s0
   \<and> ThreadDetach \<notin> set (events_since s0 (snd (e4crypt_enable_crypto w_partial s0)))
   \<and> props (snd (e4crypt_enable_crypto w0 s0)) ''ro.crypto.state'' = Some ''encrypted''
   \<and> fst (e4crypt_enable_crypto w0 s0) = Inr ()"
proof -
  have "(500000 :: 64 word) \<noteq> 1000000" by simp
  with partial_run(2)
  have a: "CryptfsEnableInplace ''/dev/block/dm-3'' ''/dev/block/sda'' 1000000 0 500000
             \<in> set (events_since s0 (snd (e4crypt_enable_crypto w_partial s0))) \<and>
           ((0::int) \<noteq> 0 \<or> (500000 :: 64 word) \<noteq> 1000000)"
    by simp
  have b: "PropertySet ''ro.crypto.state'' [] \<in> set (events_since s0 (snd (e4crypt_enable_crypto w0 s0))) \<or>
           props (snd (e4crypt_enable_crypto w0 s0)) ''ro.crypto.state'' \<noteq> props s0 ''ro.crypto.state''"
    using complete_run by simp
  note p = enable_crypto_state_flag [OF surjective_pairing refl, THEN conjunct2, THEN mp, OF a]
  note c = enable_crypto_state_flag [OF surjective_pairing refl, THEN conjunct1, THEN mp, OF b]
  from p c show ?thesis by simp
qed

subsection \<open>Mounting the encrypted volume\<close>

lemma mount_fails_run:
  "fst (read_key w_mount_fails False (emit (Log DEBUG ''e4crypt_mount_default_encrypted'') s0)) = Inr ''k1''"
  "fs_mgr_get_crypt_entry w_mount_fails = Some rec0"
  "fst (get_number_of_sectors w_mount_fails (blk_device rec0) s) = Inr 1000000"
  "fst (default_key_params w_mount_fails (blk_device rec0) ''k1'' s) = params0"
  by (simp_all add: run_steps example_values w_mount_fails_def params0_def Let_def)

text \<open>
  C8: once \<^verbatim>\<open>create_crypto_blk_dev\<close> has succeeded, \<^verbatim>\<open>e4crypt_mount_metadata_encrypted\<close>
  returns \<^verbatim>\<open>true\<close> whatever \<^verbatim>\<open>mount_via_fs_mgr\<close> returns. The mapping \<^verbatim>\<open>userdata\<close> is
  registered when the mount starts and the mount changes no mapping and issues no ioctl,
  so the mapping stays; a mount that fails ends with an \<^verbatim>\<open>ERROR\<close> line in the log.
\<close>

theorem mount_failure_keeps_mapping:
  assumes "read_key w False (emit (Log DEBUG ''e4crypt_mount_default_encrypted'') s) = (Inr key, s1)"
    and "fs_mgr_get_crypt_entry w = Some data_rec"
    and "get_number_of_sectors w (blk_device data_rec) s1 = (Inr nr_sec, s3)"
    and "default_key_params w (blk_device data_rec) key s3 = (crypt_params, s4)"
    and "create_crypto_blk_dev w kDmNameUserdata nr_sec DEFAULT_KEY_TARGET_TYPE crypt_params s4 =
           (Inr crypto_blkdev, s5)"
    and "mount_via_fs_mgr w (mount_point data_rec) crypto_blkdev
           (emit (Log DEBUG ''Restarting filesystem for metadata encryption'') s5) = (mounted, s7)"
  shows "e4crypt_mount_metadata_encrypted w s = (Inr (), emit ThreadDetach s7)
       \<and> kDmNameUserdata \<in> set (mappings s5)
       \<and> mappings s7 = mappings s5
       \<and> list_all no_ioctl (events_since s5 s7)
       \<and> (\<not> mounted \<longrightarrow> is_error_log (last (trace s7)))"
proof -
  let ?s6 = "emit (Log DEBUG ''Restarting filesystem for metadata encryption'') s5"
  have s7: "s7 = snd (mount_via_fs_mgr w (mount_point data_rec) crypto_blkdev ?s6)"
    by (simp add: assms(6))
  have "e4crypt_mount_metadata_encrypted w s = (Inr (), emit ThreadDetach s7)"
    by (simp add: e4crypt_mount_metadata_encrypted_def assms get_data_rec_def Let_def)
  moreover have "kDmNameUserdata \<in> set (mappings s5)"
    using create_crypto_blk_dev_D(3) [OF assms(5)] by (simp add: kDmNameUserdata_def DM_NAME_LEN_def)
  moreover have "mappings s7 = mappings s5"
    by (simp add: s7)
  moreover have "list_all no_ioctl (events_since s5 s7)"
  proof -
    have "adds (\<lambda>e. silent e \<and> no_ioctl e) ?s6 s7"
      unfolding s7 by (rule mount_via_fs_mgr_adds)
    then have "adds no_ioctl ?s6 s7"
      by (rule adds_mono) simp
    moreover have "adds no_ioctl s5 ?s6"
      by (simp add: adds_emit no_ioctl_def)
    ultimately have "adds no_ioctl s5 s7"
      by (rule adds_trans [rotated])
    then show ?thesis by (simp add: adds_def)
  qed
  moreover have "is_error_log (last (trace s7))" if "\<not> mounted"
    using assms(6) that by (auto intro: mount_via_fs_mgr_logs_failure)
  ultimately show ?thesis by blast
qed

theorem mount_failure_keeps_mapping_witness:
  "fst (e4crypt_mount_metadata_encrypted w_mount_fails s0) = Inr ()
   \<and> kDmNameUserdata \<in> set (mappings (snd (e4crypt_mount_metadata_encrypted w_mount_fails s0)))
   \<and> is_error_log (last (butlast (trace (snd (e4crypt_mount_metadata_encrypted w_mount_fails s0)))))"
proof -
  define s1 where "s1 = snd (read_key w_mount_fails False
                               (emit (Log DEBUG ''e4crypt_mount_default_encrypted'') s0))"
  define s3 where "s3 = snd (get_number_of_sectors w_mount_fails (blk_device rec0) s1)"
  define s4 where "s4 = snd (default_key_params w_mount_fails (blk_device rec0) ''k1'' s3)"
  define s5 where "s5 = snd (create_crypto_blk_dev w_mount_fails kDmNameUserdata 1000000
                               DEFAULT_KEY_TARGET_TYPE params0 s4)"
  define s7 where "s7 = snd (mount_via_fs_mgr w_mount_fails (mount_point rec0) ''/dev/block/dm-3''
                               (emit (Log DEBUG ''Restarting filesystem for metadata encryption'') s5))"
  have h1: "read_key w_mount_fails False (emit (Log DEBUG ''e4crypt_mount_default_encrypted'') s0) =
              (Inr ''k1'', s1)"
    using mount_fails_run(1) by (simp add: prod_eq_iff s1_def)
  have h3: "get_number_of_sectors w_mount_fails (blk_device rec0) s1 = (Inr 1000000, s3)"
    using mount_fails_run(3) by (simp add: prod_eq_iff s3_def)
  have h4: "default_key_params w_mount_fails (blk_device rec0) ''k1'' s3 = (params0, s4)"
    using mount_fails_run(4) by (simp add: prod_eq_iff s4_def)
  have "mappings s4 = []"
    by (simp add: s4_def s3_def s1_def s0_def)
  then have "fst (create_crypto_blk_dev w_mount_fails kDmNameUserdata 1000000
                    DEFAULT_KEY_TARGET_TYPE params0 s4) = Inr ''/dev/block/dm-3''"
    by (intro mapped_example) (simp_all add: w_mount_fails_def w0_def)
  then have h5: "create_crypto_blk_dev w_mount_fails kDmNameUserdata 1000000
                   DEFAULT_KEY_TARGET_TYPE params0 s4 = (Inr ''/dev/block/dm-3'', s5)"
    by (simp add: prod_eq_iff s5_def)
  have h6: "mount_via_fs_mgr w_mount_fails (mount_point rec0) ''/dev/block/dm-3''
              (emit (Log DEBUG ''Restarting filesystem for metadata encryption'') s5) = (False, s7)"
    by (simp add: prod_eq_iff s7_def mount_via_fs_mgr_def w_mount_fails_def w0_def Let_def)
  from mount_failure_keeps_mapping [OF h1 mount_fails_run(2) h3 h4 h5 h6]
  show ?thesis by simp
qed

subsection \<open>What is logged and what is stored\<close>

text \<open>
  C5 as stated, refuted: both entry points write the parameter string of the example
  volume, with the key in hex, to the log.
\<close>

theorem crypt_params_logged:
  "fst (default_key_params w0 ''/dev/block/sda'' ''k1'' s0) = ''AES-256-XTS 6b31 /dev/block/sda 0''
   \<and> Log DEBUG ''crypt_params: AES-256-XTS 6b31 /dev/block/sda 0''
        \<in> set (trace (snd (e4crypt_mount_metadata_encrypted w0 s0)))
   \<and> Log DEBUG ''crypt_params: AES-256-XTS 6b31 /dev/block/sda 0''
        \<in> set (trace (snd (e4crypt_enable_crypto w0 s0)))"
  by (simp add: run_steps example_values Let_def)

text \<open>
  The rest of this section compares two runs in environments that differ only in the
  key. Each function of the file, given states that are alike, returns the same result
  and leaves states that are alike.
\<close>

lemma same_but_key_fields:
  assumes "same_but_key w w'"
  shows "fs_mgr_get_crypt_entry w' = fs_mgr_get_crypt_entry w" "pathExists w' = pathExists w"
    "mkdir_ok w' = mkdir_ok w" "open_ok w' = open_ok w" "get_blkdev_size w' = get_blkdev_size w"
    "dev_create_ok w' = dev_create_ok w" "dev_status w' = dev_status w"
    "table_load_ok w' = table_load_ok w" "dev_suspend_ok w' = dev_suspend_ok w"
    "cryptfs_enable_inplace w' = cryptfs_enable_inplace w" "setexeccon_ok w' = setexeccon_ok w"
    "fs_mgr_do_mount w' = fs_mgr_do_mount w" "post_fs_data_done w' = post_fs_data_done w"
proof -
  from assms have e: "w' = w\<lparr>retrieveKey := retrieveKey w', StrToHex := StrToHex w'\<rparr>"
    by (simp add: same_but_key_def)
  show "fs_mgr_get_crypt_entry w' = fs_mgr_get_crypt_entry w" by (subst e) simp
  show "pathExists w' = pathExists w" by (subst e) simp
  show "mkdir_ok w' = mkdir_ok w" by (subst e) simp
  show "open_ok w' = open_ok w" by (subst e) simp
  show "get_blkdev_size w' = get_blkdev_size w" by (subst e) simp
  show "dev_create_ok w' = dev_create_ok w" by (subst e) simp
  show "dev_status w' = dev_status w" by (subst e) simp
  show "table_load_ok w' = table_load_ok w" by (subst e) simp
  show "dev_suspend_ok w' = dev_suspend_ok w" by (subst e) simp
  show "cryptfs_enable_inplace w' = cryptfs_enable_inplace w" by (subst e) simp
  show "setexeccon_ok w' = setexeccon_ok w" by (subst e) simp
  show "fs_mgr_do_mount w' = fs_mgr_do_mount w" by (subst e) simp
  show "post_fs_data_done w' = post_fs_data_done w" by (subst e) simp
qed

lemma alike_refl [simp]: "alike s s"
  by (simp add: alike_def)

lemma alike_emit: "alike s s' \<Longrightarrow> redact e = redact e' \<Longrightarrow> alike (emit e s) (emit e' s')"
  by (simp add: alike_def)

lemma alike_emit_same [simp]: "alike s s' \<Longrightarrow> alike (emit e s) (emit e s')"
  by (simp add: alike_def)

lemma alike_property_set [simp]: "alike s s' \<Longrightarrow> alike (property_set k v s) (property_set k v s')"
  by (simp add: alike_def)

lemma alikeD: "alike s s' \<Longrightarrow> mappings s = mappings s'" "alike s s' \<Longrightarrow> props s = props s'"
  by (simp_all add: alike_def)

lemma alike_run_and_then:
  assumes "alike_run V m m'"
    and "\<And>x x' t t'. V x x' \<Longrightarrow> alike t t' \<Longrightarrow> alike_run U (f x t) (f' x' t')"
  shows "alike_run U (and_then m f) (and_then m' f')"
proof -
  obtain r t r' t' where m: "m = (r, t)" "m' = (r', t')" by fastforce
  with assms(1) have rel: "rel_sum (=) V r r'" and al: "alike t t'"
    by (simp_all add: alike_run_def)
  show ?thesis
  proof (cases r)
    case (Inl e)
    with rel al show ?thesis by (cases r') (simp_all add: m alike_run_def)
  next
    case (Inr x)
    with rel obtain x' where "r' = Inr x'" "V x x'" by (cases r') simp_all
    with Inr al assms(2) show ?thesis by (simp add: m)
  qed
qed

lemma alike_run_read_key:
  assumes "same_but_key w w'" and "alike s s'"
  shows "alike_run (hex_alike w w') (read_key w c s) (read_key w' c s')"
proof (cases "fs_mgr_get_crypt_entry w")
  case None
  then show ?thesis
    using assms(2) by (simp add: read_key_def same_but_key_fields [OF assms(1)] alike_run_def)
next
  case (Some data_rec)
  note f = same_but_key_fields [OF assms(1)]
  show ?thesis
  proof (cases "key_dir data_rec")
    case None
    then show ?thesis
      using assms(2) Some by (simp add: read_key_def f alike_run_def)
  next
    case kd: (Some kd)
    have "rel_option (hex_alike w w') (retrieveKey w c (kd @ ''/key'') (kd @ ''/tmp''))
            (retrieveKey w' c (kd @ ''/key'') (kd @ ''/tmp''))"
      using assms(1) by (simp add: same_but_key_def)
    then show ?thesis
    proof cases
      case None
      then show ?thesis
        using assms(2) Some kd by (simp add: read_key_def f alike_run_def Let_def)
    next
      case (Some key key')
      then show ?thesis
        using assms(2) \<open>fs_mgr_get_crypt_entry w = Some data_rec\<close> kd
        by (simp add: read_key_def f alike_run_def Let_def)
    qed
  qed
qed

lemma alike_run_get_data_rec:
  assumes "same_but_key w w'" and "alike s s'"
  shows "alike_run (=) (get_data_rec w s) (get_data_rec w' s')"
  using assms(2)
  by (simp add: get_data_rec_def same_but_key_fields [OF assms(1)] alike_run_def split: option.split)

lemma alike_run_get_number_of_sectors:
  assumes "same_but_key w w'" and "alike s s'"
  shows "alike_run (=) (get_number_of_sectors w b s) (get_number_of_sectors w' b s')"
  using assms(2)
  by (simp add: get_number_of_sectors_def same_but_key_fields [OF assms(1)] alike_run_def Let_def)

lemma redact_crypt_params [simp]:
  "redact (Log DEBUG (''crypt_params: '' @ p)) = Log DEBUG ''crypt_params: ''"
  by simp

lemma alike_default_key_params:
  assumes "hex_alike w w' key key'" and "alike s s'"
  shows "length (fst (default_key_params w b key s)) = length (fst (default_key_params w' b key' s'))"
    and "alike (snd (default_key_params w b key s)) (snd (default_key_params w' b key' s'))"
  using assms
  by (cases "StrToHex w key"; cases "StrToHex w' key'";
      simp add: default_key_params_def hex_alike_def Let_def alike_emit)+

lemma alike_mount_via_fs_mgr:
  assumes "same_but_key w w'" and "alike s s'"
  shows "fst (mount_via_fs_mgr w mp dev s) = fst (mount_via_fs_mgr w' mp dev s')"
    and "alike (snd (mount_via_fs_mgr w mp dev s)) (snd (mount_via_fs_mgr w' mp dev s'))"
  using assms(2)
  by (simp_all add: mount_via_fs_mgr_def same_but_key_fields [OF assms(1)] Let_def)

lemma alike_run_crypto_blk_dev_create:
  assumes "same_but_key w w'" and "alike s s'"
  shows "alike_run (=) (crypto_blk_dev_create w n s) (crypto_blk_dev_create w' n s')"
  using assms(2) alikeD(1) [OF assms(2)]
  by (simp add: crypto_blk_dev_create_def dm_ioctl_init_def ioctl_def
      same_but_key_fields [OF assms(1)] alike_run_def Let_def alike_def)

lemma alike_run_crypto_blk_dev_status:
  assumes "same_but_key w w'" and "alike s s'"
  shows "alike_run (=) (crypto_blk_dev_status w n s) (crypto_blk_dev_status w' n s')"
  using assms(2)
  by (simp add: crypto_blk_dev_status_def dm_ioctl_init_def ioctl_def
      same_but_key_fields [OF assms(1)] alike_run_def Let_def split: option.split)

lemma alike_run_table_load_buffer:
  assumes "length p = length p'" and "alike s s'"
  shows "alike_run buf_alike (table_load_buffer n nr tt p s) (table_load_buffer n nr tt p' s')"
  using assms
  by (simp add: table_load_buffer_def dm_ioctl_init_def alike_run_def buf_alike_def Let_def)

lemma redact_load: "buf_alike tb tb' \<Longrightarrow> redact (Ioctl DM_TABLE_LOAD tb r) = redact (Ioctl DM_TABLE_LOAD tb' r)"
  by (simp add: buf_alike_def)

lemma alike_run_table_load_loop:
  assumes "table_load_ok w' = table_load_ok w" and "buf_alike tb tb'" and "alike s s'"
  shows "alike_run (=) (table_load_loop w tb i s) (table_load_loop w' tb' i s')"
  using assms
proof (induction w tb i s arbitrary: s' rule: table_load_loop.induct)
  case (1 w tb i s)
  note ok = "1.prems"(1) and b = "1.prems"(2) and a = "1.prems"(3)
  have l: "alike (emit (Ioctl DM_TABLE_LOAD tb r) s) (emit (Ioctl DM_TABLE_LOAD tb' r) s')" for r
    by (rule alike_emit [OF a redact_load [OF b]])
  show ?case
  proof (cases "\<not> table_load_ok w i \<and> \<not> TABLE_LOAD_RETRIES \<le> i + 1")
    case True
    let ?t = "emit (Usleep 500000) (emit (PLog INFO ''DM_TABLE_LOAD ioctl failed, retrying'')
                (emit (Ioctl DM_TABLE_LOAD tb False) s))"
    let ?t' = "emit (Usleep 500000) (emit (PLog INFO ''DM_TABLE_LOAD ioctl failed, retrying'')
                (emit (Ioctl DM_TABLE_LOAD tb' False) s'))"
    have t: "alike ?t ?t'" using l [of False] by simp
    have n1: "\<not> fst (ioctl w i DM_TABLE_LOAD tb s)" and n2: "\<not> TABLE_LOAD_RETRIES \<le> i + 1"
      using True by simp_all
    have t0: "alike (emit (Usleep 500000) (emit (PLog INFO ''DM_TABLE_LOAD ioctl failed, retrying'')
                (snd (snd (ioctl w i DM_TABLE_LOAD tb s))))) ?t'"
      using t True by simp
    have f: "table_load_ok w i = False" using True by simp
    note ih = "1.IH" [OF refl refl n1 n2 ok b t0, unfolded ioctl_load snd_conv f]
    have e: "table_load_loop w tb i s = table_load_loop w tb (i + 1) ?t"
      using True by (simp add: table_load_loop.simps [of w tb i s] Let_def)
    have e': "table_load_loop w' tb' i s' = table_load_loop w' tb' (i + 1) ?t'"
      using True by (simp add: table_load_loop.simps [of w' tb' i s'] ok Let_def)
    show ?thesis
      unfolding e e' by (rule ih)
  next
    case False
    then show ?thesis
      using l [of True] l [of False]
      by (auto simp: table_load_loop.simps [of w tb i s] table_load_loop.simps [of w' tb' i s']
          ok Let_def alike_run_def)
  qed
qed

lemma alike_run_crypto_blk_dev_resume:
  assumes "same_but_key w w'" and "alike s s'"
  shows "alike_run (=) (crypto_blk_dev_resume w n s) (crypto_blk_dev_resume w' n s')"
  using assms(2)
  by (simp add: crypto_blk_dev_resume_def dm_ioctl_init_def ioctl_def
      same_but_key_fields [OF assms(1)] alike_run_def Let_def)

lemma alike_run_create_crypto_blk_dev:
  assumes "same_but_key w w'" and "length p = length p'" and "alike s s'"
  shows "alike_run (=) (create_crypto_blk_dev w n nr tt p s) (create_crypto_blk_dev w' n nr tt p' s')"
  unfolding create_crypto_blk_dev_def
proof (rule alike_run_and_then [OF alike_run_crypto_blk_dev_create [OF assms(1,3)]])
  fix x x' :: unit and t t' assume "alike t t'"
  show "alike_run (=)
          (and_then (crypto_blk_dev_status w n t) (\<lambda>crypto_blkdev s2.
             and_then (table_load_buffer n nr tt p s2) (\<lambda>io s3.
             and_then (table_load_loop w io 0 s3) (\<lambda>_ s4.
             and_then (crypto_blk_dev_resume w n s4) (\<lambda>_ s5. (Inr crypto_blkdev, s5))))))
          (and_then (crypto_blk_dev_status w' n t') (\<lambda>crypto_blkdev s2.
             and_then (table_load_buffer n nr tt p' s2) (\<lambda>io s3.
             and_then (table_load_loop w' io 0 s3) (\<lambda>_ s4.
             and_then (crypto_blk_dev_resume w' n s4) (\<lambda>_ s5. (Inr crypto_blkdev, s5))))))"
  proof (rule alike_run_and_then [OF alike_run_crypto_blk_dev_status [OF assms(1) \<open>alike t t'\<close>]])
    fix dev dev' :: string and t2 t2' assume d: "dev = dev'" and a2: "alike t2 t2'"
    show "alike_run (=)
            (and_then (table_load_buffer n nr tt p t2) (\<lambda>io s3.
               and_then (table_load_loop w io 0 s3) (\<lambda>_ s4.
               and_then (crypto_blk_dev_resume w n s4) (\<lambda>_ s5. (Inr dev, s5)))))
            (and_then (table_load_buffer n nr tt p' t2') (\<lambda>io s3.
               and_then (table_load_loop w' io 0 s3) (\<lambda>_ s4.
               and_then (crypto_blk_dev_resume w' n s4) (\<lambda>_ s5. (Inr dev', s5)))))"
    proof (rule alike_run_and_then [OF alike_run_table_load_buffer [OF assms(2) a2]])
      fix tb tb' t3 t3' assume b: "buf_alike tb tb'" and a3: "alike t3 t3'"
      show "alike_run (=)
              (and_then (table_load_loop w tb 0 t3) (\<lambda>_ s4.
                 and_then (crypto_blk_dev_resume w n s4) (\<lambda>_ s5. (Inr dev, s5))))
              (and_then (table_load_loop w' tb' 0 t3') (\<lambda>_ s4.
                 and_then (crypto_blk_dev_resume w' n s4) (\<lambda>_ s5. (Inr dev', s5))))"
      proof (rule alike_run_and_then
          [OF alike_run_table_load_loop [OF same_but_key_fields(8) [OF assms(1)] b a3]])
        fix y y' :: unit and t4 t4' assume a4: "alike t4 t4'"
        show "alike_run (=)
                (and_then (crypto_blk_dev_resume w n t4) (\<lambda>_ s5. (Inr dev, s5)))
                (and_then (crypto_blk_dev_resume w' n t4') (\<lambda>_ s5. (Inr dev', s5)))"
        proof (rule alike_run_and_then [OF alike_run_crypto_blk_dev_resume [OF assms(1) a4]])
          fix z z' :: unit and t5 t5' assume "alike t5 t5'"
          then show "alike_run (=) (Inr dev, t5) (Inr dev', t5')"
            by (simp add: alike_run_def d)
        qed
      qed
    qed
  qed
qed


lemma alike_run_enable_inplace:
  assumes "same_but_key w w'" and "alike s s'"
  shows "alike_run (=) (enable_inplace w data_rec nr_sec dev s) (enable_inplace w' data_rec nr_sec dev s')"
proof -
  note f = same_but_key_fields [OF assms(1)]
  obtain rc sz where c: "cryptfs_enable_inplace w dev (blk_device data_rec) nr_sec = (rc, sz)"
    by fastforce
  have m: "alike (snd (mount_via_fs_mgr w mp dev t)) (snd (mount_via_fs_mgr w' mp dev t'))"
    if "alike t t'" for mp t t'
    by (rule alike_mount_via_fs_mgr(2) [OF assms(1) that])
  show ?thesis
    using assms(2) by (simp add: enable_inplace_def f c alike_run_def Let_def m)
qed

lemma alike_run_mount_metadata_encrypted:
  assumes "same_but_key w w'" and "alike s s'"
  shows "alike_run (=) (e4crypt_mount_metadata_encrypted w s) (e4crypt_mount_metadata_encrypted w' s')"
  unfolding e4crypt_mount_metadata_encrypted_def
proof (rule alike_run_and_then [OF alike_run_read_key [OF assms(1) alike_emit_same [OF assms(2)]]])
  fix key key' t1 t1' assume k: "hex_alike w w' key key'" and a1: "alike t1 t1'"
  show "alike_run (=)
     (and_then (get_data_rec w t1) (\<lambda>data_rec s2.
     and_then (get_number_of_sectors w (blk_device data_rec) s2) (\<lambda>nr_sec s3.
     (case default_key_params w (blk_device data_rec) key s3 of
        (crypt_params, s4) \<Rightarrow>
     and_then (create_crypto_blk_dev w kDmNameUserdata nr_sec DEFAULT_KEY_TARGET_TYPE crypt_params s4)
       (\<lambda>crypto_blkdev s5.
          let s6 = emit (Log DEBUG ''Restarting filesystem for metadata encryption'') s5;
              s7 = snd (mount_via_fs_mgr w (mount_point data_rec) crypto_blkdev s6)
          in (Inr (), emit ThreadDetach s7))))))
     (and_then (get_data_rec w' t1') (\<lambda>data_rec s2.
     and_then (get_number_of_sectors w' (blk_device data_rec) s2) (\<lambda>nr_sec s3.
     (case default_key_params w' (blk_device data_rec) key' s3 of
        (crypt_params, s4) \<Rightarrow>
     and_then (create_crypto_blk_dev w' kDmNameUserdata nr_sec DEFAULT_KEY_TARGET_TYPE crypt_params s4)
       (\<lambda>crypto_blkdev s5.
          let s6 = emit (Log DEBUG ''Restarting filesystem for metadata encryption'') s5;
              s7 = snd (mount_via_fs_mgr w' (mount_point data_rec) crypto_blkdev s6)
          in (Inr (), emit ThreadDetach s7))))))"
  proof (rule alike_run_and_then [OF alike_run_get_data_rec [OF assms(1) a1]])
    fix data_rec data_rec' :: fstab_rec and t2 t2'
    assume d: "data_rec = data_rec'" and a2: "alike t2 t2'"
    show "alike_run (=)
     (and_then (get_number_of_sectors w (blk_device data_rec) t2) (\<lambda>nr_sec s3.
     (case default_key_params w (blk_device data_rec) key s3 of
        (crypt_params, s4) \<Rightarrow>
     and_then (create_crypto_blk_dev w kDmNameUserdata nr_sec DEFAULT_KEY_TARGET_TYPE crypt_params s4)
       (\<lambda>crypto_blkdev s5.
          let s6 = emit (Log DEBUG ''Restarting filesystem for metadata encryption'') s5;
              s7 = snd (mount_via_fs_mgr w (mount_point data_rec) crypto_blkdev s6)
          in (Inr (), emit ThreadDetach s7)))))
     (and_then (get_number_of_sectors w' (blk_device data_rec') t2') (\<lambda>nr_sec s3.
     (case default_key_params w' (blk_device data_rec') key' s3 of
        (crypt_params, s4) \<Rightarrow>
     and_then (create_crypto_blk_dev w' kDmNameUserdata nr_sec DEFAULT_KEY_TARGET_TYPE crypt_params s4)
       (\<lambda>crypto_blkdev s5.
          let s6 = emit (Log DEBUG ''Restarting filesystem for metadata encryption'') s5;
              s7 = snd (mount_via_fs_mgr w' (mount_point data_rec') crypto_blkdev s6)
          in (Inr (), emit ThreadDetach s7)))))"
      unfolding d [symmetric]
    proof (rule alike_run_and_then [OF alike_run_get_number_of_sectors [OF assms(1) a2]])
      fix nr_sec nr_sec' :: "64 word" and t3 t3'
      assume n: "nr_sec = nr_sec'" and a3: "alike t3 t3'"
      obtain p t4 p' t4' where
        p: "default_key_params w (blk_device data_rec) key t3 = (p, t4)"
           "default_key_params w' (blk_device data_rec) key' t3' = (p', t4')"
        by fastforce
      from alike_default_key_params [OF k a3, of "blk_device data_rec"] p
      have l: "length p = length p'" and a4: "alike t4 t4'"
        by simp_all
      have "alike_run (=)
         (and_then (create_crypto_blk_dev w kDmNameUserdata nr_sec DEFAULT_KEY_TARGET_TYPE p t4)
           (\<lambda>crypto_blkdev s5.
              let s6 = emit (Log DEBUG ''Restarting filesystem for metadata encryption'') s5;
                  s7 = snd (mount_via_fs_mgr w (mount_point data_rec) crypto_blkdev s6)
              in (Inr (), emit ThreadDetach s7)))
         (and_then (create_crypto_blk_dev w' kDmNameUserdata nr_sec DEFAULT_KEY_TARGET_TYPE p' t4')
           (\<lambda>crypto_blkdev s5.
              let s6 = emit (Log DEBUG ''Restarting filesystem for metadata encryption'') s5;
                  s7 = snd (mount_via_fs_mgr w' (mount_point data_rec) crypto_blkdev s6)
              in (Inr (), emit ThreadDetach s7)))"
      proof (rule alike_run_and_then [OF alike_run_create_crypto_blk_dev [OF assms(1) l a4]])
        fix dev dev' :: string and t5 t5'
        assume "dev = dev'" and a5: "alike t5 t5'"
        then show "alike_run (=)
            (let s6 = emit (Log DEBUG ''Restarting filesystem for metadata encryption'') t5;
                 s7 = snd (mount_via_fs_mgr w (mount_point data_rec) dev s6)
             in (Inr (), emit ThreadDetach s7))
            (let s6 = emit (Log DEBUG ''Restarting filesystem for metadata encryption'') t5';
                 s7 = snd (mount_via_fs_mgr w' (mount_point data_rec) dev' s6)
             in (Inr (), emit ThreadDetach s7))"
          using alike_mount_via_fs_mgr(2) [OF assms(1) alike_emit_same [OF a5]]
          by (simp add: alike_run_def Let_def)
      qed
      then show "alike_run (=)
         (case default_key_params w (blk_device data_rec) key t3 of
            (crypt_params, s4) \<Rightarrow>
         and_then (create_crypto_blk_dev w kDmNameUserdata nr_sec DEFAULT_KEY_TARGET_TYPE crypt_params s4)
           (\<lambda>crypto_blkdev s5.
              let s6 = emit (Log DEBUG ''Restarting filesystem for metadata encryption'') s5;
                  s7 = snd (mount_via_fs_mgr w (mount_point data_rec) crypto_blkdev s6)
              in (Inr (), emit ThreadDetach s7)))
         (case default_key_params w' (blk_device data_rec) key' t3' of
            (crypt_params, s4) \<Rightarrow>
         and_then (create_crypto_blk_dev w' kDmNameUserdata nr_sec' DEFAULT_KEY_TARGET_TYPE crypt_params s4)
           (\<lambda>crypto_blkdev s5.
              let s6 = emit (Log DEBUG ''Restarting filesystem for metadata encryption'') s5;
                  s7 = snd (mount_via_fs_mgr w' (mount_point data_rec) crypto_blkdev s6)
              in (Inr (), emit ThreadDetach s7)))"
        unfolding n [symmetric] p prod.case .
    qed
  qed
qed

lemma alike_run_enable_crypto:
  assumes "same_but_key w w'" and "alike s s'"
  shows "alike_run (=) (e4crypt_enable_crypto w s) (e4crypt_enable_crypto w' s')"
proof -
  let ?t = "emit (Log DEBUG ''e4crypt_enable_crypto'') s"
  let ?t' = "emit (Log DEBUG ''e4crypt_enable_crypto'') s'"
  have a0: "alike ?t ?t'"
    by (rule alike_emit_same [OF assms(2)])
  have g: "property_get ?t' ''ro.crypto.state'' [] = property_get ?t ''ro.crypto.state'' []"
    using alikeD(2) [OF assms(2)] by (simp add: property_get_def)
  show ?thesis
  proof (cases "property_get ?t ''ro.crypto.state'' [] = []")
    case False
    then show ?thesis
      using a0 by (simp add: e4crypt_enable_crypto_def g alike_run_def Let_def)
  next
    case True
    have "alike_run (=)
     (and_then (read_key w True ?t) (\<lambda>key_ref s1.
     and_then (get_data_rec w s1) (\<lambda>data_rec s2.
     and_then (get_number_of_sectors w (blk_device data_rec) s2) (\<lambda>nr_sec s3.
     (case default_key_params w (blk_device data_rec) key_ref s3 of
        (crypt_params, s4) \<Rightarrow>
     and_then (create_crypto_blk_dev w kDmNameUserdata nr_sec DEFAULT_KEY_TARGET_TYPE crypt_params s4)
       (enable_inplace w data_rec nr_sec))))))
     (and_then (read_key w' True ?t') (\<lambda>key_ref s1.
     and_then (get_data_rec w' s1) (\<lambda>data_rec s2.
     and_then (get_number_of_sectors w' (blk_device data_rec) s2) (\<lambda>nr_sec s3.
     (case default_key_params w' (blk_device data_rec) key_ref s3 of
        (crypt_params, s4) \<Rightarrow>
     and_then (create_crypto_blk_dev w' kDmNameUserdata nr_sec DEFAULT_KEY_TARGET_TYPE crypt_params s4)
       (enable_inplace w' data_rec nr_sec))))))"
    proof (rule alike_run_and_then [OF alike_run_read_key [OF assms(1) a0]])
      fix key key' t1 t1' assume k: "hex_alike w w' key key'" and a1: "alike t1 t1'"
      show "alike_run (=)
       (and_then (get_data_rec w t1) (\<lambda>data_rec s2.
       and_then (get_number_of_sectors w (blk_device data_rec) s2) (\<lambda>nr_sec s3.
       (case default_key_params w (blk_device data_rec) key s3 of
          (crypt_params, s4) \<Rightarrow>
       and_then (create_crypto_blk_dev w kDmNameUserdata nr_sec DEFAULT_KEY_TARGET_TYPE crypt_params s4)
         (enable_inplace w data_rec nr_sec)))))
       (and_then (get_data_rec w' t1') (\<lambda>data_rec s2.
       and_then (get_number_of_sectors w' (blk_device data_rec) s2) (\<lambda>nr_sec s3.
       (case default_key_params w' (blk_device data_rec) key' s3 of
          (crypt_params, s4) \<Rightarrow>
       and_then (create_crypto_blk_dev w' kDmNameUserdata nr_sec DEFAULT_KEY_TARGET_TYPE crypt_params s4)
         (enable_inplace w' data_rec nr_sec)))))"
      proof (rule alike_run_and_then [OF alike_run_get_data_rec [OF assms(1) a1]])
        fix data_rec data_rec' :: fstab_rec and t2 t2'
        assume d: "data_rec = data_rec'" and a2: "alike t2 t2'"
        show "alike_run (=)
         (and_then (get_number_of_sectors w (blk_device data_rec) t2) (\<lambda>nr_sec s3.
         (case default_key_params w (blk_device data_rec) key s3 of
            (crypt_params, s4) \<Rightarrow>
         and_then (create_crypto_blk_dev w kDmNameUserdata nr_sec DEFAULT_KEY_TARGET_TYPE crypt_params s4)
           (enable_inplace w data_rec nr_sec))))
         (and_then (get_number_of_sectors w' (blk_device data_rec') t2') (\<lambda>nr_sec s3.
         (case default_key_params w' (blk_device data_rec') key' s3 of
            (crypt_params, s4) \<Rightarrow>
         and_then (create_crypto_blk_dev w' kDmNameUserdata nr_sec DEFAULT_KEY_TARGET_TYPE crypt_params s4)
           (enable_inplace w' data_rec' nr_sec))))"
          unfolding d [symmetric]
        proof (rule alike_run_and_then [OF alike_run_get_number_of_sectors [OF assms(1) a2]])
          fix nr_sec nr_sec' :: "64 word" and t3 t3'
          assume n: "nr_sec = nr_sec'" and a3: "alike t3 t3'"
          obtain p t4 p' t4' where
            p: "default_key_params w (blk_device data_rec) key t3 = (p, t4)"
               "default_key_params w' (blk_device data_rec) key' t3' = (p', t4')"
            by fastforce
          from alike_default_key_params [OF k a3, of "blk_device data_rec"] p
          have l: "length p = length p'" and a4: "alike t4 t4'"
            by simp_all
          have "alike_run (=)
             (and_then (create_crypto_blk_dev w kDmNameUserdata nr_sec DEFAULT_KEY_TARGET_TYPE p t4)
               (enable_inplace w data_rec nr_sec))
             (and_then (create_crypto_blk_dev w' kDmNameUserdata nr_sec DEFAULT_KEY_TARGET_TYPE p' t4')
               (enable_inplace w' data_rec nr_sec))"
          proof (rule alike_run_and_then [OF alike_run_create_crypto_blk_dev [OF assms(1) l a4]])
            fix dev dev' :: string and t5 t5'
            assume "dev = dev'" and a5: "alike t5 t5'"
            then show "alike_run (=) (enable_inplace w data_rec nr_sec dev t5)
                         (enable_inplace w' data_rec nr_sec dev' t5')"
              using alike_run_enable_inplace [OF assms(1) a5] by simp
          qed
          then show "alike_run (=)
             (case default_key_params w (blk_device data_rec) key t3 of
                (crypt_params, s4) \<Rightarrow>
             and_then (create_crypto_blk_dev w kDmNameUserdata nr_sec DEFAULT_KEY_TARGET_TYPE crypt_params s4)
               (enable_inplace w data_rec nr_sec))
             (case default_key_params w' (blk_device data_rec) key' t3' of
                (crypt_params, s4) \<Rightarrow>
             and_then (create_crypto_blk_dev w' kDmNameUserdata nr_sec' DEFAULT_KEY_TARGET_TYPE crypt_params s4)
               (enable_inplace w' data_rec nr_sec'))"
            unfolding n [symmetric] p prod.case .
        qed
      qed
    qed
    then show ?thesis
      using True by (simp add: e4crypt_enable_crypto_def g Let_def)
  qed
qed

lemma alike_prep_data_fs_poll:
  assumes "post_fs_data_done w' = post_fs_data_done w" and "alike s s'"
  shows "fst (prep_data_fs_poll w i s) = fst (prep_data_fs_poll w' i s')
         \<and> alike (snd (prep_data_fs_poll w i s)) (snd (prep_data_fs_poll w' i s'))"
  using assms
proof (induction w i s arbitrary: s' rule: prep_data_fs_poll.induct)
  case (1 w i s)
  note p = "1.prems"(1) and a = "1.prems"(2)
  show ?case
  proof (cases "(case post_fs_data_done w (unat i) of [] \<Rightarrow> False | c # p \<Rightarrow> c = CHR ''1'')
                \<or> i + 1 = DATA_PREP_TIMEOUT")
    case True
    then show ?thesis
      using a by (auto simp: prep_data_fs_poll.simps [of w i s] prep_data_fs_poll.simps [of w' i s'] p)
  next
    case False
    then have n1: "\<not> (case post_fs_data_done w (unat i) of [] \<Rightarrow> False | c # p \<Rightarrow> c = CHR ''1'')"
      and n2: "i + 1 \<noteq> DATA_PREP_TIMEOUT"
      by simp_all
    have e: "prep_data_fs_poll w i s = prep_data_fs_poll w (i + 1) (emit (Usleep 50000) s)"
      using n1 n2 by (simp add: prep_data_fs_poll.simps [of w i s])
    have e': "prep_data_fs_poll w' i s' = prep_data_fs_poll w' (i + 1) (emit (Usleep 50000) s')"
      using n1 n2 by (simp add: prep_data_fs_poll.simps [of w' i s'] p)
    show ?thesis
      unfolding e e' by (rule "1.IH" [OF n1 n2 p alike_emit_same [OF a]])
  qed
qed

lemma alike_prep_data_fs:
  assumes "post_fs_data_done w' = post_fs_data_done w" and "alike s s'"
  shows "fst (prep_data_fs w s) = fst (prep_data_fs w' s')"
    and "alike (snd (prep_data_fs w s)) (snd (prep_data_fs w' s'))"
  using alike_prep_data_fs_poll [OF assms(1), of
      "emit (Log DEBUG ''Waiting for post_fs_data_done'')
         (property_set ''vold.decrypt'' ''trigger_post_fs_data''
            (property_set ''vold.post_fs_data_done'' ''0'' s))"
      "emit (Log DEBUG ''Waiting for post_fs_data_done'')
         (property_set ''vold.decrypt'' ''trigger_post_fs_data''
            (property_set ''vold.post_fs_data_done'' ''0'' s'))" 0] assms(2)
  by (simp_all add: prep_data_fs_def Let_def)

lemma alike_async_kick_off:
  assumes "post_fs_data_done w' = post_fs_data_done w" and "alike s s'"
  shows "alike (async_kick_off w s) (async_kick_off w' s')"
proof -
  let ?t = "property_set ''vold.decrypt'' ''trigger_load_persist_props''
              (emit (Sleep 2) (emit (Log DEBUG ''Asynchronously restarting framework'') s))"
  let ?t' = "property_set ''vold.decrypt'' ''trigger_load_persist_props''
              (emit (Sleep 2) (emit (Log DEBUG ''Asynchronously restarting framework'') s'))"
  have a: "alike ?t ?t'"
    using assms(2) by simp
  obtain ok t4 ok' t4' where r: "prep_data_fs w ?t = (ok, t4)" "prep_data_fs w' ?t' = (ok', t4')"
    by fastforce
  from alike_prep_data_fs [OF assms(1) a] r have "ok = ok'" "alike t4 t4'"
    by simp_all
  then show ?thesis
    by (simp add: async_kick_off_def Let_def r)
qed

text \<open>
  C5, amended: the CryptoParams string, which embeds the hex-encoded key, is never
  persisted by any operation of the core, but it is logged verbatim. For two environments
  that differ only in the key and its hex conversion, and two start states that are
  alike, \<^verbatim>\<open>e4crypt_mount_metadata_encrypted\<close>, \<^verbatim>\<open>e4crypt_enable_crypto\<close> and the thread
  \<^verbatim>\<open>async_kick_off\<close>, run from any state and from the state each entry point leaves,
  return the same result and leave the same mappings, the same properties and the same
  trace up to \<open>redact\<close>: nothing the file stores, and no call it makes other than the load
  command that hands the string to the driver, depends on the key. The string is logged:
  when the hex conversion succeeds, \<^verbatim>\<open>default_key_params\<close> adds one event to the trace, the
  DEBUG line \<^verbatim>\<open>crypt_params: \<close> followed by the string it returns.
\<close>

theorem crypt_params_logged_not_persisted:
  assumes "same_but_key w w'" and "alike s s'"
  shows "alike_run (=) (e4crypt_mount_metadata_encrypted w s) (e4crypt_mount_metadata_encrypted w' s')
       \<and> alike_run (=) (e4crypt_enable_crypto w s) (e4crypt_enable_crypto w' s')
       \<and> alike (async_kick_off w s) (async_kick_off w' s')
       \<and> alike (async_kick_off w (snd (e4crypt_mount_metadata_encrypted w s)))
                (async_kick_off w' (snd (e4crypt_mount_metadata_encrypted w' s')))
       \<and> alike (async_kick_off w (snd (e4crypt_enable_crypto w s)))
                (async_kick_off w' (snd (e4crypt_enable_crypto w' s')))
       \<and> (StrToHex w key = Some hex_key \<longrightarrow>
            snd (default_key_params w real_blkdev key s) =
              emit (Log DEBUG (''crypt_params: '' @ fst (default_key_params w real_blkdev key s))) s)"
proof -
  note p = same_but_key_fields(13) [OF assms(1)]
  have m: "alike_run (=) (e4crypt_mount_metadata_encrypted w s) (e4crypt_mount_metadata_encrypted w' s')"
    by (rule alike_run_mount_metadata_encrypted [OF assms])
  have e: "alike_run (=) (e4crypt_enable_crypto w s) (e4crypt_enable_crypto w' s')"
    by (rule alike_run_enable_crypto [OF assms])
  have k: "alike (async_kick_off w s) (async_kick_off w' s')"
    by (rule alike_async_kick_off [OF p assms(2)])
  have km: "alike (async_kick_off w (snd (e4crypt_mount_metadata_encrypted w s)))
              (async_kick_off w' (snd (e4crypt_mount_metadata_encrypted w' s')))"
    using m by (intro alike_async_kick_off [OF p]) (simp add: alike_run_def)
  have ke: "alike (async_kick_off w (snd (e4crypt_enable_crypto w s)))
              (async_kick_off w' (snd (e4crypt_enable_crypto w' s')))"
    using e by (intro alike_async_kick_off [OF p]) (simp add: alike_run_def)
  have l: "StrToHex w key = Some hex_key \<longrightarrow>
            snd (default_key_params w real_blkdev key s) =
              emit (Log DEBUG (''crypt_params: '' @ fst (default_key_params w real_blkdev key s))) s"
    by (simp add: default_key_params_def Let_def)
  from m e k km ke l show ?thesis
    by (intro conjI)
qed

text \<open>
  The example volume with the keys \<^verbatim>\<open>k1\<close> and \<^verbatim>\<open>k2\<close>: the parameter strings differ, and
  the runs are alike.
\<close>

theorem crypt_params_logged_not_persisted_witness:
  "same_but_key w0 w_other_key \<and> alike s0 s0 \<and> StrToHex w0 ''k1'' = Some ''6b31''
   \<and> fst (default_key_params w0 ''/dev/block/sda'' ''k1'' s0) = ''AES-256-XTS 6b31 /dev/block/sda 0''
   \<and> fst (default_key_params w_other_key ''/dev/block/sda'' ''k2'' s0) = ''AES-256-XTS 6b32 /dev/block/sda 0''
   \<and> alike_run (=) (e4crypt_mount_metadata_encrypted w0 s0) (e4crypt_mount_metadata_encrypted w_other_key s0)
   \<and> alike_run (=) (e4crypt_enable_crypto w0 s0) (e4crypt_enable_crypto w_other_key s0)
   \<and> alike (async_kick_off w0 (snd (e4crypt_mount_metadata_encrypted w0 s0)))
            (async_kick_off w_other_key (snd (e4crypt_mount_metadata_encrypted w_other_key s0)))
   \<and> alike (async_kick_off w0 (snd (e4crypt_enable_crypto w0 s0)))
            (async_kick_off w_other_key (snd (e4crypt_enable_crypto w_other_key s0)))
   \<and> snd (default_key_params w0 ''/dev/block/sda'' ''k1'' s0) =
        emit (Log DEBUG ''crypt_params: AES-256-XTS 6b31 /dev/block/sda 0'') s0"
proof -
  have a: "same_but_key w0 w_other_key"
    by (simp add: same_but_key_def hex_alike_def w_other_key_def w0_def StrToHex_spec_def hex_byte_def)
  have b: "alike s0 s0"
    by (simp add: alike_def)
  have c: "StrToHex w0 ''k1'' = Some ''6b31''"
    by (simp add: w0_def StrToHex_spec_def hex_byte_def hex_digit_def)
  have d: "fst (default_key_params w0 ''/dev/block/sda'' ''k1'' s0) = ''AES-256-XTS 6b31 /dev/block/sda 0''"
    by (simp add: default_key_params_def example_values Let_def)
  have d': "fst (default_key_params w_other_key ''/dev/block/sda'' ''k2'' s0) = ''AES-256-XTS 6b32 /dev/block/sda 0''"
    by (simp add: default_key_params_def w_other_key_def example_values Let_def)
  note t = crypt_params_logged_not_persisted [OF a b, of "''k1''" "''6b31''" "''/dev/block/sda''"]
  note m = t [THEN conjunct1]
  note e = t [THEN conjunct2, THEN conjunct1]
  note km = t [THEN conjunct2, THEN conjunct2, THEN conjunct2, THEN conjunct1]
  note ke = t [THEN conjunct2, THEN conjunct2, THEN conjunct2, THEN conjunct2, THEN conjunct1]
  have l: "snd (default_key_params w0 ''/dev/block/sda'' ''k1'' s0) =
             emit (Log DEBUG ''crypt_params: AES-256-XTS 6b31 /dev/block/sda 0'') s0"
    using t [THEN conjunct2, THEN conjunct2, THEN conjunct2, THEN conjunct2, THEN conjunct2,
             THEN mp, OF c] d
    by simp
  from a b c d d' m e km ke l show ?thesis
    by (intro conjI)
qed

end
